theory Spec2Isabelle
  imports Main "HOL-Library.Char_ord" "HOL-Library.List_Lexorder" "HOL-Library.Multiset"
begin

section \<open>Python strings and lists\<close>

text \<open>
  Strings are lists of characters, a character standing for a code point below 256;
  Python compares strings lexicographically by code point, which is the order of
  \<open>List_Lexorder\<close> over \<open>Char_ord\<close>.
\<close>

text \<open>\<open>s.split(sep)\<close> for a one-character separator: never empty, \<open>''.split('/') = ['']\<close>.\<close>

fun split :: "char \<Rightarrow> string \<Rightarrow> string list" where
  "split sep [] = [[]]"
| "split sep (c # cs) =
     (if c = sep then [] # split sep cs
      else (c # hd (split sep cs)) # tl (split sep cs))"

text \<open>\<open>sep.join(parts)\<close>.\<close>

fun join :: "string \<Rightarrow> string list \<Rightarrow> string" where
  "join sep [] = []"
| "join sep [p] = p"
| "join sep (p # q # ps) = p @ sep @ join sep (q # ps)"

text \<open>\<open>s.startswith(p)\<close>.\<close>

definition startswith :: "string \<Rightarrow> string \<Rightarrow> bool" where
  "startswith s p = (take (length p) s = p)"

text \<open>Truth value of an \<open>Optional[str]\<close>: \<open>None\<close> and \<open>''\<close> are false.\<close>

fun truthy :: "string option \<Rightarrow> bool" where
  "truthy None = False"
| "truthy (Some s) = (s \<noteq> [])"

section \<open>Connection profiles\<close>

record SSHConfig =
  name :: string
  host :: string
  port :: int
  username :: string
  password :: "string option"
  key_path :: "string option"
  group :: "string option"

section \<open>Group queries of \<open>SSHManager\<close>\<close>

text \<open>
  The queries below read only \<open>self.configs\<close>, so they take the profile list.
  \<open>sorted(list(groups))\<close> of a set is the sorted list without duplicates.
\<close>

definition get_all_groups :: "SSHConfig list \<Rightarrow> string list" where
  "get_all_groups cs =
     sort (remdups (map (\<lambda>c. the (group c)) (filter (\<lambda>c. truthy (group c)) cs)))"

definition get_group_configs :: "SSHConfig list \<Rightarrow> string option \<Rightarrow> SSHConfig list" where
  "get_group_configs cs group_path =
     (if \<not> truthy group_path then filter (\<lambda>c. \<not> truthy (group c)) cs
      else filter (\<lambda>c. group c = group_path) cs)"

definition get_child_groups :: "SSHConfig list \<Rightarrow> string option \<Rightarrow> string list" where
  "get_child_groups cs group_path =
     (if \<not> truthy group_path then filter (\<lambda>g. CHR ''/'' \<notin> set g) (get_all_groups cs)
      else filter (\<lambda>g. startswith g (the group_path @ ''/'')
                        \<and> CHR ''/'' \<notin> set (drop (length (the group_path) + 1) g))
             (get_all_groups cs))"

definition count_group_items :: "SSHConfig list \<Rightarrow> string option \<Rightarrow> int" where
  "count_group_items cs group_path =
     int (length (get_group_configs cs group_path)) + int (length (get_child_groups cs group_path))"

section \<open>Exceptions and effects\<close>

text \<open>
  The exceptions the modelled code can raise. \<open>Unrepresentable\<close> is not an exception of
  the source: it marks a registry file whose field values have other JSON types than the
  annotations of \<open>SSHConfig\<close>; the dataclass does not check them, and the typed
  record below has no value for such an object.
\<close>

datatype error = OSError | ValueError | TypeError | KeyError | IndexError | AttributeError
  | InvalidToken | JSONDecodeError | CursesError | Unrepresentable

text \<open>
  A method either returns a value or raises; in both cases the state it has mutated so far
  stays mutated.
\<close>

datatype ('r, 's) outcome = Returns 'r 's | Raises error 's

fun state_of :: "('r, 's) outcome \<Rightarrow> 's" where
  "state_of (Returns r s) = s"
| "state_of (Raises e s) = s"

fun returned :: "('r, 's) outcome \<Rightarrow> bool" where
  "returned (Returns r s) = True"
| "returned (Raises e s) = False"

section \<open>The two files\<close>

text \<open>
  The configuration directory holds the key file and the registry file. A write either
  succeeds or fails as the next entry of the fault schedule says: \<open>OpenFails\<close> leaves the
  file as it was, \<open>WriteFails\<close> fails after \<open>open(..., 'wb')\<close> has truncated it.
\<close>

datatype file_state = Absent | Unreadable | Content string

datatype fault = NoFault | OpenFails | WriteFails

datatype path = KeyFile | ConfigFile

record fs =
  key_file :: file_state
  config_file :: file_state
  faults :: "fault list"

fun file_at :: "path \<Rightarrow> fs \<Rightarrow> file_state" where
  "file_at KeyFile f = key_file f"
| "file_at ConfigFile f = config_file f"

fun put_file :: "path \<Rightarrow> file_state \<Rightarrow> fs \<Rightarrow> fs" where
  "put_file KeyFile x f = f\<lparr>key_file := x\<rparr>"
| "put_file ConfigFile x f = f\<lparr>config_file := x\<rparr>"

definition exists_file :: "path \<Rightarrow> fs \<Rightarrow> bool" where
  "exists_file p f = (file_at p f \<noteq> Absent)"

definition read_bytes :: "path \<Rightarrow> fs \<Rightarrow> error + string" where
  "read_bytes p f = (case file_at p f of Content d \<Rightarrow> Inr d | _ \<Rightarrow> Inl OSError)"

definition write_bytes :: "path \<Rightarrow> string \<Rightarrow> fs \<Rightarrow> (unit, fs) outcome" where
  "write_bytes p d f =
     (case faults f of
        [] \<Rightarrow> Returns () (put_file p (Content d) f)
      | NoFault # r \<Rightarrow> Returns () (put_file p (Content d) (f\<lparr>faults := r\<rparr>))
      | OpenFails # r \<Rightarrow> Raises OSError (f\<lparr>faults := r\<rparr>)
      | WriteFails # r \<Rightarrow> Raises OSError (put_file p (Content []) (f\<lparr>faults := r\<rparr>)))"

section \<open>JSON values and the libraries\<close>

text \<open>
  What \<open>json.loads\<close> returns. A float is represented by what the code observes of it,
  its truth value and its \<open>str()\<close>. An object is an association list with distinct keys.
\<close>

datatype jvalue = JNull | JBool bool | JInt int | JFloat bool string | JStr string
  | JArr "jvalue list" | JObj "(string \<times> jvalue) list"

text \<open>
  \<open>cryptography.fernet\<close> and \<open>json\<close> are not part of the repository; they are
  parameters. \<open>decrypt\<close> is \<open>None\<close> where Fernet raises \<open>InvalidToken\<close>,
  \<open>loads\<close> is \<open>None\<close> where \<open>json.loads\<close> raises; \<open>dumps\<close> includes
  the \<open>.encode()\<close>. \<open>exc_text\<close> is \<open>str(e)\<close> of an exception, \<open>int_error_text\<close>
  the text of the \<open>ValueError\<close> of \<open>int(s)\<close>, \<open>container_text\<close> the \<open>str()\<close>
  of a list or dict, and \<open>run_process\<close> the exit code of the external client
  (\<open>None\<close> when it cannot be launched).

  Of \<open>curses\<close> the model has the size of the terminal, \<open>maxyx\<close> (height, width), and
  \<open>addstr\<close>: the exception that writing a text at a row and a column raises, if any
  (a text that does not fit the window, for one). The two help lines contain arrows, which
  are no characters of the model, and are named instead of spelled. The other calls of
  \<open>curses\<close> are taken to succeed on the terminal at hand.

  \<open>untyped_run\<close> stands for the interactive session on a registry file whose values
  have other types than the annotations of \<open>SSHConfig\<close>: the typed model does not
  describe it.
\<close>

datatype screen_text = Text string | ListHelp | FormHelp

record pylib =
  fernet_key_ok :: "string \<Rightarrow> bool"
  generate_key :: string
  encrypt :: "string \<Rightarrow> string \<Rightarrow> string"
  decrypt :: "string \<Rightarrow> string \<Rightarrow> string option"
  dumps :: "jvalue \<Rightarrow> string"
  loads :: "string \<Rightarrow> jvalue option"
  exc_text :: "error \<Rightarrow> string"
  int_error_text :: "string \<Rightarrow> string"
  container_text :: "jvalue \<Rightarrow> string"
  run_process :: "string list \<Rightarrow> string option \<Rightarrow> int option"
  maxyx :: "int \<times> int"
  addstr :: "int \<Rightarrow> int \<Rightarrow> screen_text \<Rightarrow> error option"
  untyped_run :: "int list \<Rightarrow> fs \<Rightarrow> string option \<times> int option"

section \<open>Serialising profiles\<close>

fun opt_json :: "string option \<Rightarrow> jvalue" where
  "opt_json None = JNull"
| "opt_json (Some s) = JStr s"

text \<open>\<open>dataclasses.asdict\<close>.\<close>

definition asdict :: "SSHConfig \<Rightarrow> jvalue" where
  "asdict c = JObj [(''name'', JStr (name c)), (''host'', JStr (host c)),
     (''port'', JInt (port c)), (''username'', JStr (username c)),
     (''password'', opt_json (password c)), (''key_path'', opt_json (key_path c)),
     (''group'', opt_json (group c))]"

definition field_names :: "string list" where
  "field_names = [''name'', ''host'', ''port'', ''username'', ''password'', ''key_path'', ''group'']"

definition required_names :: "string list" where
  "required_names = [''name'', ''host'', ''port'', ''username'']"

text \<open>
  Whether \<open>SSHConfig(**config)\<close> raises \<open>TypeError\<close>: the argument is no mapping, it
  has a key that is no field, or a field without default is missing.
\<close>

fun SSHConfig_raises :: "jvalue \<Rightarrow> bool" where
  "SSHConfig_raises (JObj kvs) =
     (list_ex (\<lambda>k. k \<notin> set field_names) (map fst kvs)
      \<or> list_ex (\<lambda>k. k \<notin> set (map fst kvs)) required_names)"
| "SSHConfig_raises v = True"

fun opt_str :: "jvalue option \<Rightarrow> string option option" where
  "opt_str None = Some None"
| "opt_str (Some JNull) = Some None"
| "opt_str (Some (JStr s)) = Some (Some s)"
| "opt_str (Some v) = None"

text \<open>The object built from keyword arguments of the annotated types.\<close>

definition SSHConfig_typed :: "(string \<times> jvalue) list \<Rightarrow> SSHConfig option" where
  "SSHConfig_typed kvs =
     (case (map_of kvs ''name'', map_of kvs ''host'', map_of kvs ''port'', map_of kvs ''username'') of
        (Some (JStr n), Some (JStr h), Some (JInt p), Some (JStr u)) \<Rightarrow>
          (case (opt_str (map_of kvs ''password''), opt_str (map_of kvs ''key_path''),
                 opt_str (map_of kvs ''group'')) of
             (Some pw, Some kp, Some g) \<Rightarrow>
               Some \<lparr>name = n, host = h, port = p, username = u,
                     password = pw, key_path = kp, group = g\<rparr>
           | _ \<Rightarrow> None)
      | _ \<Rightarrow> None)"

fun typed_of :: "jvalue \<Rightarrow> SSHConfig option" where
  "typed_of (JObj kvs) = SSHConfig_typed kvs"
| "typed_of v = None"

text \<open>
  \<open>[SSHConfig(**config) for config in config_data]\<close>: the first element that raises
  ends the comprehension.
\<close>

definition build_configs :: "jvalue list \<Rightarrow> error + SSHConfig list" where
  "build_configs vs =
     (if list_ex SSHConfig_raises vs then Inl TypeError
      else if list_all (\<lambda>v. typed_of v \<noteq> None) vs then Inr (map (\<lambda>v. the (typed_of v)) vs)
      else Inl Unrepresentable)"

text \<open>Iterating a JSON value: a list gives its elements, a dict its keys, a string its
  characters; anything else is not iterable.\<close>

fun py_iter :: "jvalue \<Rightarrow> error + jvalue list" where
  "py_iter (JArr vs) = Inr vs"
| "py_iter (JObj kvs) = Inr (map (\<lambda>kv. JStr (fst kv)) kvs)"
| "py_iter (JStr s) = Inr (map (\<lambda>c. JStr [c]) s)"
| "py_iter v = Inl TypeError"

section \<open>\<open>SSHManager\<close>\<close>

record SSHManager =
  configs :: "SSHConfig list"
  key :: string
  fsys :: fs

text \<open>Lines 54 to 56, shared by \<open>_load_config\<close> and \<open>decrypt_config\<close>.\<close>

definition read_config_data :: "pylib \<Rightarrow> string \<Rightarrow> fs \<Rightarrow> error + jvalue" where
  "read_config_data L k f =
     (case read_bytes ConfigFile f of
        Inl e \<Rightarrow> Inl e
      | Inr encrypted_data \<Rightarrow>
          (case decrypt L k encrypted_data of
             None \<Rightarrow> Inl InvalidToken
           | Some decrypted_data \<Rightarrow>
               (case loads L decrypted_data of
                  None \<Rightarrow> Inl JSONDecodeError
                | Some config_data \<Rightarrow> Inr config_data)))"

definition load_config :: "pylib \<Rightarrow> string \<Rightarrow> fs \<Rightarrow> error + SSHConfig list" where
  "load_config L k f =
     (if exists_file ConfigFile f then
        (case read_config_data L k f of
           Inl e \<Rightarrow> Inl e
         | Inr config_data \<Rightarrow>
             (case py_iter config_data of
                Inl e \<Rightarrow> Inl e
              | Inr vs \<Rightarrow> build_configs vs))
      else Inr [])"

definition save_config :: "pylib \<Rightarrow> SSHManager \<Rightarrow> (unit, SSHManager) outcome" where
  "save_config L s =
     (let config_data = JArr (map asdict (configs s));
          encrypted_data = encrypt L (key s) (dumps L config_data)
      in case write_bytes ConfigFile encrypted_data (fsys s) of
           Returns u f \<Rightarrow> Returns () (s\<lparr>fsys := f\<rparr>)
         | Raises e f \<Rightarrow> Raises e (s\<lparr>fsys := f\<rparr>))"

definition remove_config :: "pylib \<Rightarrow> string \<Rightarrow> SSHManager \<Rightarrow> (unit, SSHManager) outcome" where
  "remove_config L nm s =
     save_config L (s\<lparr>configs := filter (\<lambda>c. name c \<noteq> nm) (configs s)\<rparr>)"

definition add_config :: "pylib \<Rightarrow> SSHConfig \<Rightarrow> SSHManager \<Rightarrow> (unit, SSHManager) outcome" where
  "add_config L config s =
     (case remove_config L (name config) s of
        Raises e s' \<Rightarrow> Raises e s'
      | Returns u s' \<Rightarrow> save_config L (s'\<lparr>configs := configs s' @ [config]\<rparr>))"

fun get_config :: "SSHConfig list \<Rightarrow> string \<Rightarrow> SSHConfig option" where
  "get_config [] nm = None"
| "get_config (c # cs) nm = (if name c = nm then Some c else get_config cs nm)"



section \<open>Conversions between integers and strings\<close>

text \<open>
  \<open>str(n)\<close> of an integer. (The integers in memory come from \<open>int\<close> or from
  \<open>json.loads\<close> and so have at most 4300 digits, within the limit of \<open>str\<close>.)
\<close>

function str_nat :: "nat \<Rightarrow> string" where
  "str_nat n =
     (if n < 10 then [''0123456789'' ! n]
      else str_nat (n div 10) @ [''0123456789'' ! (n mod 10)])"
  by pat_completeness auto
termination
  by (relation "measure id") auto

definition str_int :: "int \<Rightarrow> string" where
  "str_int i = (if i < 0 then CHR ''-'' # str_nat (nat (- i)) else str_nat (nat i))"

text \<open>
  \<open>int(s)\<close>: whitespace around the number is skipped, one sign is allowed, then come
  decimal digits, where single underscores may stand between digits; more than 4300
  digits are refused. \<open>None\<close> is the \<open>ValueError\<close>. The whitespace of \<open>int\<close> is
  the blank, the five ASCII control characters from tab to carriage return, and, beyond
  ASCII, the Unicode spaces, of which U+0085 and U+00A0 lie below 256; the separators
  U+001C to U+001F are not skipped.
\<close>

definition is_space :: "char \<Rightarrow> bool" where
  "is_space c = (c \<in> set [CHR '' '', CHR 0x09, CHR 0x0A, CHR 0x0B, CHR 0x0C, CHR 0x0D,
                           CHR 0x85, CHR 0xA0])"

definition strip :: "string \<Rightarrow> string" where
  "strip s = rev (dropWhile is_space (rev (dropWhile is_space s)))"

definition is_digit :: "char \<Rightarrow> bool" where
  "is_digit c = (c \<in> set ''0123456789'')"

definition digit_val :: "char \<Rightarrow> nat" where
  "digit_val c = of_char c - 48"

fun parse_digits :: "nat \<Rightarrow> string \<Rightarrow> nat option" where
  "parse_digits acc [] = Some acc"
| "parse_digits acc [c] = (if is_digit c then Some (acc * 10 + digit_val c) else None)"
| "parse_digits acc (c # d # cs) =
     (if is_digit c then parse_digits (acc * 10 + digit_val c) (d # cs)
      else if c = CHR ''_'' \<and> is_digit d then parse_digits (acc * 10 + digit_val d) cs
      else None)"

definition parse_nat :: "string \<Rightarrow> nat option" where
  "parse_nat s =
     (case s of [] \<Rightarrow> None
      | c # cs \<Rightarrow> if is_digit c then parse_digits (digit_val c) cs else None)"

definition max_str_digits :: int where
  "max_str_digits = 4300"

definition py_int :: "string \<Rightarrow> int option" where
  "py_int s =
     (if int (length (filter is_digit s)) > max_str_digits then None
      else
        (case strip s of
           [] \<Rightarrow> None
         | c # cs \<Rightarrow>
             if c = CHR ''-'' then map_option (\<lambda>n. - int n) (parse_nat cs)
             else if c = CHR ''+'' then map_option int (parse_nat cs)
             else map_option int (parse_nat (c # cs))))"

text \<open>\<open>xs[i]\<close>: a negative index counts from the end, an index out of range raises.\<close>

definition py_index :: "'a list \<Rightarrow> int \<Rightarrow> error + 'a" where
  "py_index xs i =
     (let n = int (length xs); j = (if i < 0 then n + i else i)
      in if 0 \<le> j \<and> j < n then Inr (xs ! nat j) else Inl IndexError)"

text \<open>\<open>s.split(sep)[0]\<close> for a non-empty separator: the text before its first occurrence.\<close>

fun before :: "string \<Rightarrow> string \<Rightarrow> string" where
  "before sep [] = []"
| "before sep (c # cs) = (if startswith (c # cs) sep then [] else c # before sep cs)"

text \<open>\<open>s or None\<close>.\<close>

definition or_none :: "string \<Rightarrow> string option" where
  "or_none s = (if s = [] then None else Some s)"

text \<open>\<open>x or ''\<close> for an optional string.\<close>

fun or_empty :: "string option \<Rightarrow> string" where
  "or_empty None = []"
| "or_empty (Some s) = s"

section \<open>\<open>SSHManagerUI\<close>: the navigation state\<close>

datatype mode = ModeList | ModeAdd | ModeEdit | ModeConfirmDelete

datatype field = FName | FHost | FPort | FUsername | FPassword | FKeyPath | FGroup

definition input_fields :: "field list" where
  "input_fields = [FName, FHost, FPort, FUsername, FPassword, FKeyPath, FGroup]"

datatype item_type = Dir | Config

datatype item_data = NoData | GroupData string | ConfigData SSHConfig

type_synonym item = "string \<times> item_type \<times> item_data"

text \<open>
  \<open>input_values\<close> is a dict that always has exactly the seven keys of \<open>input_fields\<close>:
  a function on \<open>field\<close>. \<open>colors_initialized\<close> belongs to the rendering and is left out.
\<close>

record SSHManagerUI =
  ssh_manager :: SSHManager
  current_index :: int
  mode :: mode
  editing_config :: "SSHConfig option"
  current_field :: int
  input_values :: "field \<Rightarrow> string"
  message :: string
  message_timeout :: int
  delete_confirm :: "SSHConfig option"
  current_path :: "string list"
  display_items :: "item list"
  password_visible :: bool

definition KEY_DOWN :: int where "KEY_DOWN = 258"
definition KEY_UP :: int where "KEY_UP = 259"
definition KEY_BACKSPACE :: int where "KEY_BACKSPACE = 263"

definition SSHManagerUI_init :: "SSHManager \<Rightarrow> SSHManagerUI" where
  "SSHManagerUI_init m =
     \<lparr>ssh_manager = m, current_index = 0, mode = ModeList, editing_config = None,
      current_field = 0, input_values = (\<lambda>f. []), message = [], message_timeout = 0,
      delete_confirm = None, current_path = [], display_items = [],
      password_visible = False\<rparr>"

definition show_message :: "string \<Rightarrow> SSHManagerUI \<Rightarrow> SSHManagerUI" where
  "show_message msg ui = ui\<lparr>message := msg, message_timeout := 3\<rparr>"

definition current_group_of :: "string list \<Rightarrow> string option" where
  "current_group_of p = (if p \<noteq> [] then Some (join ''/'' p) else None)"

definition dir_item :: "SSHConfig list \<Rightarrow> string \<Rightarrow> item" where
  "dir_item cs g =
     (last (split CHR ''/'' g) @ '' ('' @ str_int (count_group_items cs (Some g)) @ '')'',
      Dir, GroupData g)"

definition config_item :: "SSHConfig \<Rightarrow> item" where
  "config_item c = (name c @ '' ('' @ host c @ '')'', Config, ConfigData c)"

definition build_display_items :: "SSHConfig list \<Rightarrow> string list \<Rightarrow> item list" where
  "build_display_items cs p =
     (if p \<noteq> [] then [(''..'', Dir, NoData)] else [])
     @ map (dir_item cs) (sort (get_child_groups cs (current_group_of p)))
     @ map config_item (sort_key name (get_group_configs cs (current_group_of p)))"

text \<open>
  The three drawing methods: the texts they write, in the order of the source, and what
  they do to the state. The first write that \<open>curses\<close> refuses ends the method with
  its exception; what was assigned before stays assigned.
\<close>

fun addstr_all :: "pylib \<Rightarrow> (int \<times> int \<times> screen_text) list \<Rightarrow> error option" where
  "addstr_all L [] = None"
| "addstr_all L ((y, x, t) # ws) =
     (case addstr L y x t of Some e \<Rightarrow> Some e | None \<Rightarrow> addstr_all L ws)"

definition tick_message :: "SSHManagerUI \<Rightarrow> SSHManagerUI" where
  "tick_message ui =
     (if message ui \<noteq> [] \<and> message_timeout ui > 0 then
        (if message_timeout ui - 1 = 0
         then ui\<lparr>message_timeout := message_timeout ui - 1, message := []\<rparr>
         else ui\<lparr>message_timeout := message_timeout ui - 1\<rparr>)
      else ui)"

definition header_text :: "string list \<Rightarrow> string" where
  "header_text p = ''SSH Manager'' @ (if p \<noteq> [] then '' - '' @ join ''/'' p else [])"

text \<open>The row of an item, \<open>sel\<close> telling whether it is the selected one.\<close>

fun row_text :: "bool \<Rightarrow> item \<Rightarrow> string" where
  "row_text sel (item, item_type, data) =
     (if item_type = Dir \<and> item \<noteq> ''..''
      then (if sel then ''> ['' else ''  ['') @ item @ '']''
      else (if sel then ''> '' else ''  '') @ item)"

definition list_rows :: "SSHManagerUI \<Rightarrow> (int \<times> int \<times> screen_text) list" where
  "list_rows ui =
     (if display_items ui = []
      then [(1, 0, Text (''No items found. Press '' @ [CHR 0x27] @ ''a'' @ [CHR 0x27]
                          @ '' to add a connection.''))]
      else map (\<lambda>(i, it). (int i + 1, 0, Text (row_text (int i = current_index ui) it)))
             (enumerate 0 (display_items ui)))"

definition draw_list :: "pylib \<Rightarrow> SSHManagerUI \<Rightarrow> (unit, SSHManagerUI) outcome" where
  "draw_list L ui =
     (case addstr L 0 ((snd (maxyx L) - int (length (header_text (current_path ui)))) div 2)
             (Text (header_text (current_path ui))) of
        Some e \<Rightarrow> Raises e ui
      | None \<Rightarrow>
          (let ui1 = ui\<lparr>display_items :=
                 build_display_items (configs (ssh_manager ui)) (current_path ui)\<rparr>
           in case addstr_all L (list_rows ui1 @ [(fst (maxyx L) - 1, 2, ListHelp)]) of
                Some e \<Rightarrow> Raises e ui1
              | None \<Rightarrow>
                  if message ui1 \<noteq> [] \<and> message_timeout ui1 > 0 then
                    (case addstr L (fst (maxyx L) - 2) 2 (Text (message ui1)) of
                       Some e \<Rightarrow> Raises e ui1
                     | None \<Rightarrow> Returns () (tick_message ui1))
                  else Returns () ui1))"

text \<open>\<open>field.capitalize()\<close> of the seven field names.\<close>

fun field_label :: "field \<Rightarrow> string" where
  "field_label FName = ''Name''"
| "field_label FHost = ''Host''"
| "field_label FPort = ''Port''"
| "field_label FUsername = ''Username''"
| "field_label FPassword = ''Password''"
| "field_label FKeyPath = ''Key_path''"
| "field_label FGroup = ''Group''"

text \<open>The writes for the field number \<open>i\<close> of the form.\<close>

definition field_writes :: "SSHManagerUI \<Rightarrow> nat \<times> field \<Rightarrow> (int \<times> int \<times> screen_text) list" where
  "field_writes ui = (\<lambda>(i, f).
     (let y = 2 + int i * 2;
          label = field_label f @ '': '';
          v = (if f = FPassword \<and> \<not> password_visible ui
               then replicate (length (input_values ui f)) CHR ''*''
               else input_values ui f)
      in [(y, 2, Text label), (y, 2 + int (length label), Text v)]
         @ (if int i = current_field ui \<and> f = FPassword
            then [(y + 1, 2, Text ''Press Ctrl+T to toggle password visibility'')] else [])))"

definition draw_add_form :: "pylib \<Rightarrow> SSHManagerUI \<Rightarrow> (unit, SSHManagerUI) outcome" where
  "draw_add_form L ui =
     (let title = (if editing_config ui = None then ''Add New Connection''
                   else ''Edit Connection'')
      in case addstr_all L
                ([(0, (snd (maxyx L) - int (length title)) div 2, Text title)]
                 @ concat (map (field_writes ui)
                     (takeWhile (\<lambda>(i, f). \<not> 2 + int i * 2 \<ge> fst (maxyx L) - 2)
                        (enumerate 0 input_fields)))
                 @ [(fst (maxyx L) - 1, 2, FormHelp)]
                 @ (if message ui \<noteq> [] then [(fst (maxyx L) - 2, 2, Text (message ui))] else []))
         of Some e \<Rightarrow> Raises e ui
          | None \<Rightarrow> Returns () ui)"

definition draw_confirm_delete :: "pylib \<Rightarrow> SSHManagerUI \<Rightarrow> (unit, SSHManagerUI) outcome" where
  "draw_confirm_delete L ui =
     (case delete_confirm ui of
        None \<Rightarrow> Raises AttributeError ui
      | Some config \<Rightarrow>
          (case addstr L 0 0
                  (Text (''Delete connection '' @ [CHR 0x27] @ name config @ [CHR 0x27]
                         @ '' ('' @ host config @ '')? [y/N]'')) of
             Some e \<Rightarrow> Raises e ui
           | None \<Rightarrow>
               if message ui \<noteq> [] \<and> message_timeout ui > 0 then
                 (case addstr L (fst (maxyx L) - 1) 0 (Text (message ui)) of
                    Some e \<Rightarrow> Raises e ui
                  | None \<Rightarrow> Returns () (tick_message ui))
               else Returns () ui))"

section \<open>Launching the external client\<close>

definition client_command :: "string \<Rightarrow> string \<Rightarrow> SSHConfig \<Rightarrow> string list" where
  "client_command exe port_flag c =
     [exe, ''-o'', ''StrictHostKeyChecking=no'']
     @ (if port c \<noteq> 22 then [port_flag, str_int (port c)] else [])
     @ (if truthy (key_path c) then [''-i'', the (key_path c)] else [])
     @ [username c @ ''@'' @ host c]"

definition launch :: "pylib \<Rightarrow> string list \<Rightarrow> SSHConfig \<Rightarrow> int option" where
  "launch L cmd c =
     (if truthy (password c) then run_process L ([''sshpass'', ''-e''] @ cmd) (password c)
      else run_process L cmd None)"

definition connect_to_ssh :: "pylib \<Rightarrow> SSHConfig \<Rightarrow> SSHManagerUI \<Rightarrow> SSHManagerUI" where
  "connect_to_ssh L c ui =
     (case launch L (client_command ''ssh'' ''-p'' c) c of
        None \<Rightarrow> ui
      | Some rc \<Rightarrow>
          if rc \<noteq> 0 then
            (if rc = 6 then show_message ''Authentication failed - check username and password'' ui
             else show_message (''Connection failed with exit code '' @ str_int rc) ui)
          else show_message ''Connection closed'' ui)"

definition connect_to_sftp :: "pylib \<Rightarrow> SSHConfig \<Rightarrow> SSHManagerUI \<Rightarrow> SSHManagerUI" where
  "connect_to_sftp L c ui =
     (case launch L (client_command ''sftp'' ''-P'' c) c of
        None \<Rightarrow> ui
      | Some rc \<Rightarrow>
          if rc \<noteq> 0 then
            (if rc = 6 then show_message ''Authentication failed - check username and password'' ui
             else show_message (''SFTP connection failed with exit code '' @ str_int rc) ui)
          else show_message ''SFTP connection closed'' ui)"

section \<open>The input handlers\<close>

text \<open>The assignments shared by the two ways into \<open>edit\<close> mode.\<close>

definition begin_edit :: "SSHConfig \<Rightarrow> SSHManagerUI \<Rightarrow> SSHManagerUI" where
  "begin_edit d ui =
     ui\<lparr>editing_config := Some d, mode := ModeEdit,
        input_values := (\<lambda>f. case f of
            FName \<Rightarrow> name d | FHost \<Rightarrow> host d | FPort \<Rightarrow> str_int (port d)
          | FUsername \<Rightarrow> username d | FPassword \<Rightarrow> or_empty (password d)
          | FKeyPath \<Rightarrow> or_empty (key_path d) | FGroup \<Rightarrow> or_empty (group d)),
        current_field := 0\<rparr>"

definition begin_add :: "SSHManagerUI \<Rightarrow> SSHManagerUI" where
  "begin_add ui =
     ui\<lparr>mode := ModeAdd,
        input_values := (if current_path ui \<noteq> []
                         then (\<lambda>f. [])(FGroup := join ''/'' (current_path ui))
                         else (\<lambda>f. [])),
        current_field := 0\<rparr>"

text \<open>
  The selected item, for the branches that read \<open>display_items[current_index]\<close> and
  then use \<open>data\<close> as a profile when the item is one. Every item of kind \<open>Config\<close>
  that \<open>build_display_items\<close> makes carries a profile; the branches for a \<open>Config\<close>
  item without one are the \<open>AttributeError\<close> of \<open>data.name\<close> and are never taken.
\<close>

definition selected :: "SSHManagerUI \<Rightarrow> error + item" where
  "selected ui = py_index (display_items ui) (current_index ui)"

definition handle_list_input ::
    "pylib \<Rightarrow> int \<Rightarrow> SSHManagerUI \<Rightarrow> (bool, SSHManagerUI) outcome" where
  "handle_list_input L k ui =
     (if k = KEY_UP \<and> current_index ui > 0 then
        Returns True (ui\<lparr>current_index := current_index ui - 1\<rparr>)
      else if k = KEY_DOWN \<and> current_index ui < int (length (display_items ui)) - 1 then
        Returns True (ui\<lparr>current_index := current_index ui + 1\<rparr>)
      else if k = 10 then
        (if display_items ui \<noteq> [] then
           (case selected ui of
              Inl e \<Rightarrow> Raises e ui
            | Inr (item, item_type, data) \<Rightarrow>
                if item_type = Dir then
                  (if item = ''..'' then
                     (if current_path ui \<noteq> [] then
                        Returns True (ui\<lparr>current_path := butlast (current_path ui),
                                         current_index := 0\<rparr>)
                      else Returns True ui)
                   else Returns True (ui\<lparr>current_path := current_path ui @ [before '' ('' item],
                                          current_index := 0\<rparr>))
                else
                  (case data of
                     ConfigData d \<Rightarrow> Returns True (begin_edit d ui)
                   | _ \<Rightarrow> Raises AttributeError (ui\<lparr>editing_config := None, mode := ModeEdit\<rparr>)))
         else Returns True ui)
      else if k = 97 then Returns True (begin_add ui)
      else if k = 101 \<and> display_items ui \<noteq> [] then
        (case selected ui of
           Inl e \<Rightarrow> Raises e ui
         | Inr (item, item_type, data) \<Rightarrow>
             if item_type = Config then
               (case data of
                  ConfigData d \<Rightarrow> Returns True (begin_edit d ui)
                | _ \<Rightarrow> Raises AttributeError (ui\<lparr>editing_config := None, mode := ModeEdit\<rparr>))
             else Returns True ui)
      else if k = 100 \<and> display_items ui \<noteq> [] then
        (case selected ui of
           Inl e \<Rightarrow> Raises e ui
         | Inr (item, item_type, data) \<Rightarrow>
             if item_type = Config then
               Returns True (ui\<lparr>mode := ModeConfirmDelete,
                                delete_confirm := (case data of ConfigData d \<Rightarrow> Some d | _ \<Rightarrow> None)\<rparr>)
             else Returns True ui)
      else if k = 113 then Returns False ui
      else if k = 99 \<and> display_items ui \<noteq> [] then
        (case selected ui of
           Inl e \<Rightarrow> Raises e ui
         | Inr (item, item_type, data) \<Rightarrow>
             if item_type = Config then
               (case data of
                  ConfigData d \<Rightarrow>
                    Returns True (connect_to_ssh L d
                      (show_message (''Connecting to '' @ host d @ ''...'') ui))
                | _ \<Rightarrow> Raises AttributeError ui)
             else Returns True ui)
      else if k = 115 \<and> display_items ui \<noteq> [] then
        (case selected ui of
           Inl e \<Rightarrow> Raises e ui
         | Inr (item, item_type, data) \<Rightarrow>
             if item_type = Config then
               (case data of
                  ConfigData d \<Rightarrow>
                    Returns True (connect_to_sftp L d
                      (show_message (''Starting SFTP session with '' @ host d @ ''...'') ui))
                | _ \<Rightarrow> Raises AttributeError ui)
             else Returns True ui)
      else Returns True ui)"

text \<open>The profile that \<open>Enter\<close> builds from the buffer, given the parsed port.\<close>

definition config_of_input :: "(field \<Rightarrow> string) \<Rightarrow> int \<Rightarrow> SSHConfig" where
  "config_of_input iv p =
     \<lparr>name = iv FName, host = iv FHost, port = p, username = iv FUsername,
      password = or_none (iv FPassword), key_path = or_none (iv FKeyPath),
      group = or_none (iv FGroup)\<rparr>"

definition finish_submit :: "string \<Rightarrow> SSHManager \<Rightarrow> SSHManagerUI \<Rightarrow> SSHManagerUI" where
  "finish_submit msg m ui =
     (show_message msg (ui\<lparr>ssh_manager := m\<rparr>))\<lparr>mode := ModeList, editing_config := None\<rparr>"

text \<open>
  The \<open>Enter\<close> branch. Only \<open>ValueError\<close> is caught; the only one raised inside the
  \<open>try\<close> is that of \<open>int\<close>, a failed write raises \<open>OSError\<close> and leaves the handler.
\<close>

definition submit :: "pylib \<Rightarrow> SSHManagerUI \<Rightarrow> (bool, SSHManagerUI) outcome" where
  "submit L ui =
     (case py_int (input_values ui FPort) of
        None \<Rightarrow>
          Returns True (show_message (''Error: '' @ int_error_text L (input_values ui FPort)) ui)
      | Some p \<Rightarrow>
          (let config = config_of_input (input_values ui) p in
           if mode ui = ModeEdit then
             (case editing_config ui of
                None \<Rightarrow> Raises AttributeError ui
              | Some old \<Rightarrow>
                  (case remove_config L (name old) (ssh_manager ui) of
                     Raises e m \<Rightarrow> Raises e (ui\<lparr>ssh_manager := m\<rparr>)
                   | Returns u m \<Rightarrow>
                       (case add_config L config m of
                          Raises e m' \<Rightarrow> Raises e (ui\<lparr>ssh_manager := m'\<rparr>)
                        | Returns u' m' \<Rightarrow>
                            Returns True
                              (finish_submit (''Updated connection: '' @ name config) m' ui))))
           else
             (case add_config L config (ssh_manager ui) of
                Raises e m' \<Rightarrow> Raises e (ui\<lparr>ssh_manager := m'\<rparr>)
              | Returns u' m' \<Rightarrow>
                  Returns True (finish_submit (''Added connection: '' @ name config) m' ui))))"

definition handle_add_input ::
    "pylib \<Rightarrow> int \<Rightarrow> SSHManagerUI \<Rightarrow> (bool, SSHManagerUI) outcome" where
  "handle_add_input L k ui =
     (if k = KEY_UP \<and> current_field ui > 0 then
        Returns True (ui\<lparr>current_field := current_field ui - 1\<rparr>)
      else if k = KEY_DOWN \<and> current_field ui < int (length input_fields) - 1 then
        Returns True (ui\<lparr>current_field := current_field ui + 1\<rparr>)
      else if k = 27 then Returns True (ui\<lparr>mode := ModeList, editing_config := None\<rparr>)
      else if k = 20 then
        (case py_index input_fields (current_field ui) of
           Inl e \<Rightarrow> Raises e ui
         | Inr f \<Rightarrow>
             if f = FPassword then Returns True (ui\<lparr>password_visible := \<not> password_visible ui\<rparr>)
             else Returns True ui)
      else if k = 10 then submit L ui
      else if k \<ge> 32 \<and> k \<le> 126 then
        (case py_index input_fields (current_field ui) of
           Inl e \<Rightarrow> Raises e ui
         | Inr f \<Rightarrow>
             Returns True (ui\<lparr>input_values :=
               (input_values ui)(f := input_values ui f @ [char_of k])\<rparr>))
      else if k = KEY_BACKSPACE \<or> k = 127 then
        (case py_index input_fields (current_field ui) of
           Inl e \<Rightarrow> Raises e ui
         | Inr f \<Rightarrow>
             Returns True (ui\<lparr>input_values :=
               (input_values ui)(f := butlast (input_values ui f))\<rparr>))
      else Returns True ui)"

definition handle_confirm_delete ::
    "pylib \<Rightarrow> int \<Rightarrow> SSHManagerUI \<Rightarrow> (bool, SSHManagerUI) outcome" where
  "handle_confirm_delete L k ui =
     (if k = 121 then
        (case delete_confirm ui of
           None \<Rightarrow> Raises AttributeError ui
         | Some config \<Rightarrow>
             (case remove_config L (name config) (ssh_manager ui) of
                Raises e m \<Rightarrow> Raises e (ui\<lparr>ssh_manager := m\<rparr>)
              | Returns u m \<Rightarrow>
                  (let ui1 = ui\<lparr>ssh_manager := m\<rparr>;
                       ui2 = (if current_index ui1 \<ge> int (length (display_items ui1))
                              then ui1\<lparr>current_index :=
                                     max 0 (int (length (display_items ui1)) - 1)\<rparr>
                              else ui1);
                       ui3 = show_message (''Deleted connection: '' @ name config) ui2
                   in Returns True (ui3\<lparr>mode := ModeList, delete_confirm := None\<rparr>))))
      else if k = 110 \<or> k = 27 then
        Returns True ((show_message ''Deletion cancelled'' ui)
                        \<lparr>mode := ModeList, delete_confirm := None\<rparr>)
      else Returns True ui)"

text \<open>
  One round of the loop of \<open>run\<close>: draw, read the key \<open>k\<close>, handle it. An exception
  of the drawing leaves the loop before the key is read.
\<close>

definition step :: "pylib \<Rightarrow> int \<Rightarrow> SSHManagerUI \<Rightarrow> (bool, SSHManagerUI) outcome" where
  "step L k ui =
     (case mode ui of
        ModeList \<Rightarrow>
          (case draw_list L ui of
             Raises e ui' \<Rightarrow> Raises e ui'
           | Returns u ui' \<Rightarrow> handle_list_input L k ui')
      | ModeAdd \<Rightarrow>
          (case draw_add_form L ui of
             Raises e ui' \<Rightarrow> Raises e ui'
           | Returns u ui' \<Rightarrow> handle_add_input L k ui')
      | ModeEdit \<Rightarrow>
          (case draw_add_form L ui of
             Raises e ui' \<Rightarrow> Raises e ui'
           | Returns u ui' \<Rightarrow> handle_add_input L k ui')
      | ModeConfirmDelete \<Rightarrow>
          (case draw_confirm_delete L ui of
             Raises e ui' \<Rightarrow> Raises e ui'
           | Returns u ui' \<Rightarrow> handle_confirm_delete L k ui'))"

section \<open>\<open>decrypt_config\<close> and \<open>main\<close>\<close>








text \<open>
  The loop of \<open>run\<close> over the keys that \<open>getch\<close> delivers. The result is \<open>True\<close> when
  the keys are used up and the loop still waits for one.
\<close>

fun run :: "pylib \<Rightarrow> int list \<Rightarrow> SSHManagerUI \<Rightarrow> (bool, SSHManagerUI) outcome" where
  "run L [] ui = Returns True ui"
| "run L (k # ks) ui =
     (case step L k ui of
        Raises e ui' \<Rightarrow> Raises e ui'
      | Returns running ui' \<Rightarrow> if running then run L ks ui' else Returns False ui')"


section \<open>Notions used in the statements\<close>

text \<open>The next \<open>n\<close> writes succeed.\<close>

definition writes_ok :: "nat \<Rightarrow> fs \<Rightarrow> bool" where
  "writes_ok n f = list_all (\<lambda>x. x = NoFault) (take n (faults f))"

text \<open>The bytes that \<open>_save_config\<close> writes for the current profile list.\<close>

definition saved_bytes :: "pylib \<Rightarrow> SSHManager \<Rightarrow> string" where
  "saved_bytes L s = encrypt L (key s) (dumps L (JArr (map asdict (configs s))))"

fun raised :: "('r, 's) outcome \<Rightarrow> error option" where
  "raised (Returns r s) = None"
| "raised (Raises e s) = Some e"

text \<open>
  A concrete library for the closed examples: a cipher that prefixes the key, a codec
  that knows the one document \<open>doc\<close>, and a terminal of 24 rows and 80 columns that
  refuses a write starting outside it.
\<close>

definition example_lib :: "jvalue \<Rightarrow> pylib" where
  "example_lib doc =
     \<lparr>fernet_key_ok = (\<lambda>k. k \<noteq> []), generate_key = ''key'',
      encrypt = (\<lambda>k d. k @ d),
      decrypt = (\<lambda>k d. if take (length k) d = k then Some (drop (length k) d) else None),
      dumps = (\<lambda>v. if v = doc then ''doc'' else ''other''),
      loads = (\<lambda>s. if s = ''doc'' then Some doc else None),
      exc_text = (\<lambda>e. ''exception''), int_error_text = (\<lambda>s. ''invalid literal''),
      container_text = (\<lambda>v. ''container''), run_process = (\<lambda>cmd env. Some 0),
      maxyx = (24, 80),
      addstr = (\<lambda>y x t. if 0 \<le> y \<and> y < 24 \<and> 0 \<le> x \<and> x < 80 then None
                        else Some CursesError),
      untyped_run = (\<lambda>keys f. (None, None))\<rparr>"

definition profile :: "string \<Rightarrow> string option \<Rightarrow> SSHConfig" where
  "profile n g = \<lparr>name = n, host = ''10.0.0.1'', port = 22, username = ''admin'',
                  password = None, key_path = None, group = g\<rparr>"

definition manager_of :: "SSHConfig list \<Rightarrow> fault list \<Rightarrow> SSHManager" where
  "manager_of cs fl = \<lparr>configs = cs, key = ''key'',
      fsys = \<lparr>key_file = Content ''key'', config_file = Absent, faults = fl\<rparr>\<rparr>"

text \<open>The entry that leads to the parent group.\<close>

definition up_item :: item where
  "up_item = (''..'', Dir, NoData)"

text \<open>
  The keys that a handler has a branch for, per mode; the drawing that precedes the
  handler in the loop and the handler, both as the loop picks them by the mode; and the
  navigation state: mode, path, selection, form and deletion target.
\<close>

definition recognised :: "mode \<Rightarrow> int \<Rightarrow> bool" where
  "recognised m k =
     (case m of
        ModeList \<Rightarrow> k \<in> set [KEY_UP, KEY_DOWN, 10, 97, 101, 100, 113, 99, 115]
      | ModeConfirmDelete \<Rightarrow> k \<in> set [121, 110, 27]
      | _ \<Rightarrow> k \<in> set [KEY_UP, KEY_DOWN, 27, 20, 10, KEY_BACKSPACE, 127] \<or> (32 \<le> k \<and> k \<le> 126))"

definition draw :: "pylib \<Rightarrow> SSHManagerUI \<Rightarrow> (unit, SSHManagerUI) outcome" where
  "draw L ui =
     (case mode ui of
        ModeList \<Rightarrow> draw_list L ui
      | ModeConfirmDelete \<Rightarrow> draw_confirm_delete L ui
      | _ \<Rightarrow> draw_add_form L ui)"

definition handler :: "pylib \<Rightarrow> int \<Rightarrow> SSHManagerUI \<Rightarrow> (bool, SSHManagerUI) outcome" where
  "handler L k ui =
     (case mode ui of
        ModeList \<Rightarrow> handle_list_input L k ui
      | ModeConfirmDelete \<Rightarrow> handle_confirm_delete L k ui
      | _ \<Rightarrow> handle_add_input L k ui)"

definition nav_state ::
  "SSHManagerUI \<Rightarrow> mode \<times> string list \<times> int \<times> SSHConfig option \<times> int \<times> (field \<Rightarrow> string) \<times> SSHConfig option" where
  "nav_state ui = (mode ui, current_path ui, current_index ui, editing_config ui,
                   current_field ui, input_values ui, delete_confirm ui)"

text \<open>A form buffer with the four mandatory fields filled, and a form showing it.\<close>

definition buffer :: "string \<Rightarrow> string \<Rightarrow> string \<Rightarrow> string \<Rightarrow> field \<Rightarrow> string" where
  "buffer n h p u = (\<lambda>f. [])(FName := n, FHost := h, FPort := p, FUsername := u)"

definition form_of :: "mode \<Rightarrow> SSHConfig option \<Rightarrow> (field \<Rightarrow> string) \<Rightarrow> SSHManager \<Rightarrow> SSHManagerUI" where
  "form_of m e iv s = (SSHManagerUI_init s)\<lparr>mode := m, editing_config := e, input_values := iv\<rparr>"

text \<open>
  The libraries restore the document of the profile list \<open>cs\<close>: \<open>json.loads\<close> undoes
  \<open>json.dumps\<close> on it, and decrypting with the key undoes encrypting with it.
\<close>

definition codec_ok :: "pylib \<Rightarrow> string \<Rightarrow> SSHConfig list \<Rightarrow> bool" where
  "codec_ok L k cs =
     (loads L (dumps L (JArr (map asdict cs))) = Some (JArr (map asdict cs))
      \<and> decrypt L k (encrypt L k (dumps L (JArr (map asdict cs))))
          = Some (dumps L (JArr (map asdict cs))))"

definition example_doc :: jvalue where
  "example_doc = JArr (map asdict [profile ''db1'' (Some ''infra/db''), profile ''web'' None])"



section \<open>The registry operations\<close>

lemma write_bytes_ok:
  "writes_ok (Suc n) f \<Longrightarrow>
     \<exists>f'. write_bytes p d f = Returns () f' \<and> writes_ok n f' \<and> file_at p f' = Content d"
  unfolding write_bytes_def writes_ok_def
  by (cases p; cases "faults f"; auto split: fault.splits)

lemma save_config_ok:
  "writes_ok (Suc n) (fsys s) \<Longrightarrow>
     \<exists>f'. save_config L s = Returns () (s\<lparr>fsys := f'\<rparr>) \<and> writes_ok n f'
        \<and> config_file f' = Content (saved_bytes L s)"
  using write_bytes_ok[of n "fsys s" ConfigFile "saved_bytes L s"]
  by (auto simp: save_config_def saved_bytes_def Let_def)

lemma save_config_state:
  "\<exists>f'. state_of (save_config L s) = s\<lparr>fsys := f'\<rparr>"
  by (auto simp: save_config_def Let_def split: outcome.splits)

lemma save_config_raises:
  "save_config L s = Raises e s' \<Longrightarrow> e = OSError \<and> configs s' = configs s \<and> key s' = key s"
  by (auto simp: save_config_def Let_def write_bytes_def split: outcome.splits list.splits fault.splits)

lemma save_config_returns:
  "save_config L s = Returns u s' \<Longrightarrow> configs s' = configs s \<and> key s' = key s
     \<and> config_file (fsys s') = Content (saved_bytes L s)"
  by (auto simp: save_config_def Let_def write_bytes_def saved_bytes_def split: outcome.splits list.splits fault.splits)

lemma remove_config_configs:
  "configs (state_of (remove_config L nm s)) = filter (\<lambda>c. name c \<noteq> nm) (configs s)"
  using save_config_state[of L "s\<lparr>configs := filter (\<lambda>c. name c \<noteq> nm) (configs s)\<rparr>"]
  by (auto simp: remove_config_def)

lemma add_config_configs:
  "configs (state_of (add_config L p s)) = filter (\<lambda>c. name c \<noteq> name p) (configs s)
   \<or> configs (state_of (add_config L p s)) = filter (\<lambda>c. name c \<noteq> name p) (configs s) @ [p]"
proof (cases "remove_config L (name p) s")
  case (Returns u s')
  then have c: "configs s' = filter (\<lambda>c. name c \<noteq> name p) (configs s)"
    using remove_config_configs[of L "name p" s] by simp
  obtain f' where "state_of (save_config L (s'\<lparr>configs := configs s' @ [p]\<rparr>)) = s'\<lparr>configs := configs s' @ [p], fsys := f'\<rparr>"
    using save_config_state[of L "s'\<lparr>configs := configs s' @ [p]\<rparr>"] by auto
  with Returns c show ?thesis by (simp add: add_config_def)
next
  case (Raises e s')
  then have "configs s' = filter (\<lambda>c. name c \<noteq> name p) (configs s)"
    using remove_config_configs[of L "name p" s] by simp
  with Raises show ?thesis by (simp add: add_config_def)
qed

lemma add_config_ok:
  assumes "writes_ok (Suc (Suc n)) (fsys s)"
  shows "\<exists>f'. add_config L p s =
            Returns () (s\<lparr>configs := filter (\<lambda>c. name c \<noteq> name p) (configs s) @ [p], fsys := f'\<rparr>)
          \<and> writes_ok n f'"
proof -
  let ?s1 = "s\<lparr>configs := filter (\<lambda>c. name c \<noteq> name p) (configs s)\<rparr>"
  from assms have "writes_ok (Suc (Suc n)) (fsys ?s1)" by simp
  from save_config_ok[OF this, of L] obtain f1 where
    r1: "save_config L ?s1 = Returns () (?s1\<lparr>fsys := f1\<rparr>)" and w1: "writes_ok (Suc n) f1" by blast
  let ?s2 = "?s1\<lparr>fsys := f1, configs := filter (\<lambda>c. name c \<noteq> name p) (configs s) @ [p]\<rparr>"
  from w1 have "writes_ok (Suc n) (fsys ?s2)" by simp
  from save_config_ok[OF this, of L] obtain f2 where
    r2: "save_config L ?s2 = Returns () (?s2\<lparr>fsys := f2\<rparr>)" and w2: "writes_ok n f2" by blast
  have "add_config L p s = Returns () (?s2\<lparr>fsys := f2\<rparr>)"
    using r1 r2 by (simp add: add_config_def remove_config_def)
  with w2 show ?thesis by auto
qed

text \<open>
  C5. \<open>add_config\<close> is an upsert: when the writes succeed it returns, whether or not the
  name is already present, with every profile of that name removed and the new profile
  appended at the end; adding the same profile again leaves exactly one entry of that name.
\<close>

theorem add_config_upsert:
  assumes "writes_ok 4 (fsys s)"
  shows "\<exists>s' s''. add_config L p s = Returns () s'
           \<and> configs s' = filter (\<lambda>c. name c \<noteq> name p) (configs s) @ [p]
           \<and> add_config L p s' = Returns () s''
           \<and> length (filter (\<lambda>c. name c = name p) (configs s'')) = 1"
proof -
  from assms have "writes_ok (Suc (Suc 2)) (fsys s)" by (simp add: numeral_eq_Suc)
  from add_config_ok[OF this, of L p] obtain f1 where
    r1: "add_config L p s = Returns () (s\<lparr>configs := filter (\<lambda>c. name c \<noteq> name p) (configs s) @ [p], fsys := f1\<rparr>)"
    and w1: "writes_ok 2 f1" by blast
  let ?s1 = "s\<lparr>configs := filter (\<lambda>c. name c \<noteq> name p) (configs s) @ [p], fsys := f1\<rparr>"
  from w1 have "writes_ok (Suc (Suc 0)) (fsys ?s1)" by (simp add: numeral_eq_Suc)
  from add_config_ok[OF this, of L p] obtain f2 where
    r2: "add_config L p ?s1 = Returns () (?s1\<lparr>configs := filter (\<lambda>c. name c \<noteq> name p) (configs ?s1) @ [p], fsys := f2\<rparr>)"
    by blast
  show ?thesis using r1 r2 by simp
qed

theorem add_config_upsert_witness:
  "writes_ok 4 (fsys (manager_of [profile ''db1'' None, profile ''web'' None] []))
   \<and> (\<exists>s' s''. add_config (example_lib JNull) (profile ''db1'' (Some ''infra''))
                    (manager_of [profile ''db1'' None, profile ''web'' None] []) = Returns () s'
        \<and> configs s' = filter (\<lambda>c. name c \<noteq> name (profile ''db1'' (Some ''infra'')))
                          (configs (manager_of [profile ''db1'' None, profile ''web'' None] []))
                        @ [profile ''db1'' (Some ''infra'')]
        \<and> add_config (example_lib JNull) (profile ''db1'' (Some ''infra'')) s' = Returns () s''
        \<and> length (filter (\<lambda>c. name c = name (profile ''db1'' (Some ''infra''))) (configs s'')) = 1)"
  using add_config_upsert [of "manager_of [profile ''db1'' None, profile ''web'' None] []"
                              "example_lib JNull" "profile ''db1'' (Some ''infra'')"]
  by (simp add: writes_ok_def manager_of_def)

text \<open>
  C6. Unique names are an invariant of the registry: if no two profiles share a name
  before \<open>add_config\<close> or \<open>remove_config\<close>, none do afterwards, whether the
  operation returns or raises.
\<close>

theorem name_unique_preserved:
  assumes "distinct (map name (configs s))"
  shows "distinct (map name (configs (state_of (add_config L p s))))
       \<and> distinct (map name (configs (state_of (remove_config L nm s))))"
proof -
  have d: "distinct (map name (filter (\<lambda>c. name c \<noteq> x) (configs s)))" for x
    using assms by (simp add: distinct_map_filter)
  have "name p \<notin> set (map name (filter (\<lambda>c. name c \<noteq> name p) (configs s)))" by auto
  with d[of "name p"] have "distinct (map name (filter (\<lambda>c. name c \<noteq> name p) (configs s) @ [p]))"
    by auto
  with d[of "name p"] d[of nm] show ?thesis
    using add_config_configs[of L p s] remove_config_configs[of L nm s] by auto
qed

theorem name_unique_preserved_witness:
  "distinct (map name (configs (manager_of [profile ''db1'' None, profile ''web'' None] [])))
   \<and> distinct (map name (configs (state_of (add_config (example_lib JNull) (profile ''web'' None)
         (manager_of [profile ''db1'' None, profile ''web'' None] [])))))
   \<and> distinct (map name (configs (state_of (remove_config (example_lib JNull) ''db1''
         (manager_of [profile ''db1'' None, profile ''web'' None] [])))))"
  using name_unique_preserved [of "manager_of [profile ''db1'' None, profile ''web'' None] []"
                                  "example_lib JNull" "profile ''web'' None" "''db1''"]
  by (simp add: manager_of_def profile_def)

section \<open>The derived groups\<close>

text \<open>
  C1. The claim asks for every prefix path of a group among the derived groups. For
  profiles with the groups \<open>a/b\<close>, \<open>a/c\<close> and none, \<open>get_all_groups\<close> returns only
  \<open>a/b\<close> and \<open>a/c\<close>: the prefix \<open>a\<close> is missing, and the root has no child group.
\<close>

theorem get_all_groups_omits_prefixes:
  "get_all_groups [profile ''p1'' (Some ''a/b''), profile ''p2'' (Some ''a/c''),
                   profile ''p3'' None] = [''a/b'', ''a/c'']
   \<and> ''a'' \<notin> set (get_all_groups [profile ''p1'' (Some ''a/b''), profile ''p2'' (Some ''a/c''),
                                     profile ''p3'' None])
   \<and> get_child_groups [profile ''p1'' (Some ''a/b''), profile ''p2'' (Some ''a/c''),
                       profile ''p3'' None] None = []"
  by (simp add: get_all_groups_def get_child_groups_def profile_def)

section \<open>Deleting the selected profile\<close>

text \<open>
  C7. After a confirmed deletion the selection index should lie within the new listing.
  With the profiles \<open>A\<close> and \<open>B\<close> at the root, the keys Down, \<open>d\<close>, \<open>y\<close> delete
  \<open>B\<close> and return to the list with index 1, while the listing now has one item: the
  test against \<open>display_items\<close> reads the listing drawn before the deletion. The
  next Enter raises \<open>IndexError\<close>.
\<close>

theorem confirm_delete_index_out_of_range:
  "mode (state_of (run (example_lib JNull) [258, 100, 121]
      (SSHManagerUI_init (manager_of [profile ''A'' None, profile ''B'' None] [])))) = ModeList
   \<and> current_index (state_of (run (example_lib JNull) [258, 100, 121]
      (SSHManagerUI_init (manager_of [profile ''A'' None, profile ''B'' None] [])))) = 1
   \<and> build_display_items (configs (ssh_manager (state_of (run (example_lib JNull) [258, 100, 121]
      (SSHManagerUI_init (manager_of [profile ''A'' None, profile ''B'' None] [])))))) []
       = [config_item (profile ''A'' None)]
   \<and> raised (run (example_lib JNull) [258, 100, 121, 10]
      (SSHManagerUI_init (manager_of [profile ''A'' None, profile ''B'' None] []))) = Some IndexError"
  by code_simp

section \<open>The listing of the browser\<close>






lemma get_group_configs_sub: "set (get_group_configs cs g) \<subseteq> set cs"
  by (auto simp: get_group_configs_def)















section \<open>Keys without a branch\<close>

lemma tick_message_frame:
  "nav_state (tick_message ui) = nav_state ui \<and> ssh_manager (tick_message ui) = ssh_manager ui"
  by (simp add: tick_message_def nav_state_def)

lemma draw_list_frame:
  "nav_state (state_of (draw_list L ui)) = nav_state ui
   \<and> ssh_manager (state_of (draw_list L ui)) = ssh_manager ui"
  using tick_message_frame[of "ui\<lparr>display_items :=
          build_display_items (configs (ssh_manager ui)) (current_path ui)\<rparr>"]
  by (simp add: draw_list_def Let_def nav_state_def split: option.splits)

lemma draw_add_form_frame: "state_of (draw_add_form L ui) = ui"
  by (simp add: draw_add_form_def Let_def split: option.splits)

lemma draw_confirm_delete_frame:
  "nav_state (state_of (draw_confirm_delete L ui)) = nav_state ui
   \<and> ssh_manager (state_of (draw_confirm_delete L ui)) = ssh_manager ui"
  using tick_message_frame[of ui]
  by (simp add: draw_confirm_delete_def split: option.splits)

lemma draw_frame:
  "nav_state (state_of (draw L ui)) = nav_state ui
   \<and> ssh_manager (state_of (draw L ui)) = ssh_manager ui"
  using draw_list_frame[of L ui] draw_confirm_delete_frame[of L ui] draw_add_form_frame[of L ui]
  by (cases "mode ui") (simp_all add: draw_def)

lemma list_key_ignored:
  "\<not> recognised ModeList k \<Longrightarrow> handle_list_input L k ui = Returns True ui"
  by (simp add: recognised_def handle_list_input_def)

lemma form_key_ignored:
  "\<not> recognised ModeAdd k \<Longrightarrow> handle_add_input L k ui = Returns True ui"
  by (auto simp: recognised_def handle_add_input_def)

lemma confirm_key_ignored:
  "\<not> recognised ModeConfirmDelete k \<Longrightarrow> handle_confirm_delete L k ui = Returns True ui"
  by (simp add: recognised_def handle_confirm_delete_def)

lemma handler_ignores:
  "\<not> recognised (mode ui) k \<Longrightarrow> mode ui' = mode ui \<Longrightarrow> handler L k ui' = Returns True ui'"
  using list_key_ignored[of k L ui'] form_key_ignored[of k L ui'] confirm_key_ignored[of k L ui']
  by (cases "mode ui") (simp_all add: handler_def recognised_def)

lemma step_draw_handler:
  "step L k ui =
     (case draw L ui of Raises e ui' \<Rightarrow> Raises e ui' | Returns u ui' \<Rightarrow> handler L k ui')"
proof -
  have "mode (state_of (draw L ui)) = mode ui"
    using draw_frame[of L ui] by (simp add: nav_state_def)
  then show ?thesis
    by (cases "mode ui"; cases "draw L ui")
       (simp_all add: step_def draw_def handler_def split: outcome.splits)
qed

text \<open>
  C9. A key for which the handler of the current mode has no branch is ignored: the
  handler returns \<open>True\<close> and the very state it was given. A round of the loop with such
  a key changes neither the navigation state (mode, path, selection index, form buffer
  and cursor, profile being edited, deletion target) nor the registry: it ends with the
  state as the drawing left it, or with the exception of the drawing, and the drawing
  touches neither of the two.
\<close>

theorem unrecognised_key_ignored:
  assumes "\<not> recognised (mode ui) k"
  shows "handler L k ui = Returns True ui
       \<and> step L k ui = (case draw L ui of Raises e ui' \<Rightarrow> Raises e ui'
                                        | Returns u ui' \<Rightarrow> Returns True ui')
       \<and> nav_state (state_of (step L k ui)) = nav_state ui
       \<and> ssh_manager (state_of (step L k ui)) = ssh_manager ui"
proof -
  have m: "mode (state_of (draw L ui)) = mode ui"
    using draw_frame[of L ui] by (simp add: nav_state_def)
  have s: "step L k ui = (case draw L ui of Raises e ui' \<Rightarrow> Raises e ui'
                                        | Returns u ui' \<Rightarrow> Returns True ui')"
  proof (cases "draw L ui")
    case (Returns u ui')
    with m have "mode ui' = mode ui" by simp
    from handler_ignores[OF assms this, of L] Returns show ?thesis
      by (simp add: step_draw_handler)
  next
    case (Raises e ui')
    then show ?thesis by (simp add: step_draw_handler)
  qed
  have "state_of (step L k ui) = state_of (draw L ui)"
    unfolding s by (cases "draw L ui") simp_all
  with draw_frame[of L ui] s handler_ignores[OF assms refl, of L] show ?thesis by simp
qed

theorem unrecognised_key_ignored_witness:
  "\<not> recognised (mode (SSHManagerUI_init (manager_of [profile ''A'' None] []))) 120
   \<and> handler (example_lib JNull) 120 (SSHManagerUI_init (manager_of [profile ''A'' None] []))
       = Returns True (SSHManagerUI_init (manager_of [profile ''A'' None] []))
   \<and> nav_state (state_of (step (example_lib JNull) 120
                    (SSHManagerUI_init (manager_of [profile ''A'' None] []))))
       = nav_state (SSHManagerUI_init (manager_of [profile ''A'' None] []))
   \<and> ssh_manager (state_of (step (example_lib JNull) 120
                    (SSHManagerUI_init (manager_of [profile ''A'' None] []))))
       = ssh_manager (SSHManagerUI_init (manager_of [profile ''A'' None] []))"
proof -
  have h: "\<not> recognised (mode (SSHManagerUI_init (manager_of [profile ''A'' None] []))) 120"
    by (simp add: recognised_def SSHManagerUI_init_def KEY_UP_def KEY_DOWN_def)
  note t = unrecognised_key_ignored [OF h, of "example_lib JNull"]
  show ?thesis
    by (intro conjI h t [THEN conjunct1] t [THEN conjunct2, THEN conjunct2, THEN conjunct1]
          t [THEN conjunct2, THEN conjunct2, THEN conjunct2])
qed

section \<open>Submitting the form\<close>

lemma remove_config_ok:
  assumes "writes_ok (Suc n) (fsys s)"
  shows "\<exists>f'. remove_config L nm s =
            Returns () (s\<lparr>configs := filter (\<lambda>c. name c \<noteq> nm) (configs s), fsys := f'\<rparr>)
          \<and> writes_ok n f'"
proof -
  let ?s1 = "s\<lparr>configs := filter (\<lambda>c. name c \<noteq> nm) (configs s)\<rparr>"
  from assms have "writes_ok (Suc n) (fsys ?s1)" by simp
  from save_config_ok[OF this, of L] show ?thesis by (auto simp: remove_config_def)
qed

lemma handle_add_input_enter: "handle_add_input L 10 ui = submit L ui"
  by (simp add: handle_add_input_def KEY_UP_def KEY_DOWN_def)

lemma py_int_abc: "py_int ''abc'' = None"
  by code_simp

lemma py_int_2222: "py_int ''2222'' = Some 2222"
  by code_simp

text \<open>
  C3, as the code has it. Enter checks one thing, that the port field converts with
  \<open>int\<close>. When it does not (as for \<open>abc\<close>), the handler returns with mode, registry
  and buffer unchanged and the error as the message, shown for three drawings. When it
  does and the writes succeed, the profile built from the buffer replaces every profile
  of its name (in edit mode after the profile being edited has been removed by its old
  name) and the mode is the list again.
\<close>

theorem submit_checks_port_only:
  "(py_int (input_values ui FPort) = None \<longrightarrow>
      (\<exists>ui'. handle_add_input L 10 ui = Returns True ui'
         \<and> mode ui' = mode ui \<and> ssh_manager ui' = ssh_manager ui
         \<and> input_values ui' = input_values ui
         \<and> message ui' = ''Error: '' @ int_error_text L (input_values ui FPort)
         \<and> message_timeout ui' = 3))
   \<and> (py_int (input_values ui FPort) = Some p \<and> mode ui = ModeAdd
        \<and> writes_ok 2 (fsys (ssh_manager ui)) \<longrightarrow>
      (\<exists>ui'. handle_add_input L 10 ui = Returns True ui' \<and> mode ui' = ModeList
         \<and> configs (ssh_manager ui')
             = filter (\<lambda>c. name c \<noteq> input_values ui FName) (configs (ssh_manager ui))
               @ [config_of_input (input_values ui) p]))
   \<and> (py_int (input_values ui FPort) = Some p \<and> mode ui = ModeEdit
        \<and> editing_config ui = Some old \<and> writes_ok 3 (fsys (ssh_manager ui)) \<longrightarrow>
      (\<exists>ui'. handle_add_input L 10 ui = Returns True ui' \<and> mode ui' = ModeList
         \<and> configs (ssh_manager ui')
             = filter (\<lambda>c. name c \<noteq> input_values ui FName)
                 (filter (\<lambda>c. name c \<noteq> name old) (configs (ssh_manager ui)))
               @ [config_of_input (input_values ui) p]))
   \<and> py_int ''abc'' = None"
proof (intro conjI impI)
  assume "py_int (input_values ui FPort) = None"
  then show "\<exists>ui'. handle_add_input L 10 ui = Returns True ui'
         \<and> mode ui' = mode ui \<and> ssh_manager ui' = ssh_manager ui
         \<and> input_values ui' = input_values ui
         \<and> message ui' = ''Error: '' @ int_error_text L (input_values ui FPort)
         \<and> message_timeout ui' = 3"
    by (simp add: handle_add_input_enter submit_def show_message_def)
next
  let ?c = "config_of_input (input_values ui) p"
  assume a: "py_int (input_values ui FPort) = Some p \<and> mode ui = ModeAdd
        \<and> writes_ok 2 (fsys (ssh_manager ui))"
  then have "writes_ok (Suc (Suc 0)) (fsys (ssh_manager ui))" by (simp add: numeral_eq_Suc)
  from add_config_ok[OF this, of L ?c] obtain f' where
    r: "add_config L ?c (ssh_manager ui) = Returns ()
          (ssh_manager ui\<lparr>configs := filter (\<lambda>c. name c \<noteq> name ?c) (configs (ssh_manager ui)) @ [?c],
                           fsys := f'\<rparr>)" by blast
  have n: "name ?c = input_values ui FName" by (simp add: config_of_input_def)
  from a r n show "\<exists>ui'. handle_add_input L 10 ui = Returns True ui' \<and> mode ui' = ModeList
         \<and> configs (ssh_manager ui')
             = filter (\<lambda>c. name c \<noteq> input_values ui FName) (configs (ssh_manager ui)) @ [?c]"
    by (simp add: handle_add_input_enter submit_def finish_submit_def show_message_def)
next
  let ?c = "config_of_input (input_values ui) p"
  assume a: "py_int (input_values ui FPort) = Some p \<and> mode ui = ModeEdit
        \<and> editing_config ui = Some old \<and> writes_ok 3 (fsys (ssh_manager ui))"
  then have "writes_ok (Suc 2) (fsys (ssh_manager ui))" by (simp add: numeral_eq_Suc)
  from remove_config_ok[OF this, of L "name old"] obtain f1 where
    r1: "remove_config L (name old) (ssh_manager ui) = Returns ()
          (ssh_manager ui\<lparr>configs := filter (\<lambda>c. name c \<noteq> name old) (configs (ssh_manager ui)),
                           fsys := f1\<rparr>)" and w1: "writes_ok 2 f1" by blast
  let ?m1 = "ssh_manager ui\<lparr>configs := filter (\<lambda>c. name c \<noteq> name old) (configs (ssh_manager ui)),
                           fsys := f1\<rparr>"
  from w1 have "writes_ok (Suc (Suc 0)) (fsys ?m1)" by (simp add: numeral_eq_Suc)
  from add_config_ok[OF this, of L ?c] obtain f2 where
    r2: "add_config L ?c ?m1 = Returns ()
          (?m1\<lparr>configs := filter (\<lambda>c. name c \<noteq> name ?c) (configs ?m1) @ [?c], fsys := f2\<rparr>)"
    by blast
  have n: "name ?c = input_values ui FName" by (simp add: config_of_input_def)
  from a r1 r2 n show "\<exists>ui'. handle_add_input L 10 ui = Returns True ui' \<and> mode ui' = ModeList
         \<and> configs (ssh_manager ui')
             = filter (\<lambda>c. name c \<noteq> input_values ui FName)
                 (filter (\<lambda>c. name c \<noteq> name old) (configs (ssh_manager ui))) @ [?c]"
    by (simp add: handle_add_input_enter submit_def finish_submit_def show_message_def)
next
  show "py_int ''abc'' = None" by code_simp
qed

theorem submit_checks_port_only_witness:
  "(py_int (input_values (form_of ModeAdd None (buffer ''db1'' ''h'' ''abc'' ''u'') (manager_of [profile ''db1'' None] [])) FPort) = None)
   \<and> (\<exists>ui'. handle_add_input (example_lib JNull) 10 (form_of ModeAdd None (buffer ''db1'' ''h'' ''abc'' ''u'') (manager_of [profile ''db1'' None] [])) = Returns True ui'
         \<and> mode ui' = mode (form_of ModeAdd None (buffer ''db1'' ''h'' ''abc'' ''u'') (manager_of [profile ''db1'' None] []))
         \<and> ssh_manager ui' = ssh_manager (form_of ModeAdd None (buffer ''db1'' ''h'' ''abc'' ''u'') (manager_of [profile ''db1'' None] []))
         \<and> input_values ui' = input_values (form_of ModeAdd None (buffer ''db1'' ''h'' ''abc'' ''u'') (manager_of [profile ''db1'' None] []))
         \<and> message ui' = ''Error: '' @ int_error_text (example_lib JNull) (input_values (form_of ModeAdd None (buffer ''db1'' ''h'' ''abc'' ''u'') (manager_of [profile ''db1'' None] [])) FPort)
         \<and> message_timeout ui' = 3)
   \<and> (py_int (input_values (form_of ModeAdd None (buffer ''db1'' ''h'' ''2222'' ''u'') (manager_of [profile ''db1'' None] [])) FPort) = Some 2222 \<and> mode (form_of ModeAdd None (buffer ''db1'' ''h'' ''2222'' ''u'') (manager_of [profile ''db1'' None] [])) = ModeAdd
        \<and> writes_ok 2 (fsys (ssh_manager (form_of ModeAdd None (buffer ''db1'' ''h'' ''2222'' ''u'') (manager_of [profile ''db1'' None] [])))))
   \<and> (\<exists>ui'. handle_add_input (example_lib JNull) 10 (form_of ModeAdd None (buffer ''db1'' ''h'' ''2222'' ''u'') (manager_of [profile ''db1'' None] [])) = Returns True ui' \<and> mode ui' = ModeList
         \<and> configs (ssh_manager ui')
             = filter (\<lambda>c. name c \<noteq> input_values (form_of ModeAdd None (buffer ''db1'' ''h'' ''2222'' ''u'') (manager_of [profile ''db1'' None] [])) FName) (configs (ssh_manager (form_of ModeAdd None (buffer ''db1'' ''h'' ''2222'' ''u'') (manager_of [profile ''db1'' None] []))))
               @ [config_of_input (input_values (form_of ModeAdd None (buffer ''db1'' ''h'' ''2222'' ''u'') (manager_of [profile ''db1'' None] []))) 2222])
   \<and> (py_int (input_values (form_of ModeEdit (Some (profile ''db1'' None)) (buffer ''db2'' ''h'' ''2222'' ''u'') (manager_of [profile ''db1'' None] [])) FPort) = Some 2222 \<and> mode (form_of ModeEdit (Some (profile ''db1'' None)) (buffer ''db2'' ''h'' ''2222'' ''u'') (manager_of [profile ''db1'' None] [])) = ModeEdit
        \<and> editing_config (form_of ModeEdit (Some (profile ''db1'' None)) (buffer ''db2'' ''h'' ''2222'' ''u'') (manager_of [profile ''db1'' None] [])) = Some (profile ''db1'' None)
        \<and> writes_ok 3 (fsys (ssh_manager (form_of ModeEdit (Some (profile ''db1'' None)) (buffer ''db2'' ''h'' ''2222'' ''u'') (manager_of [profile ''db1'' None] [])))))
   \<and> (\<exists>ui'. handle_add_input (example_lib JNull) 10 (form_of ModeEdit (Some (profile ''db1'' None)) (buffer ''db2'' ''h'' ''2222'' ''u'') (manager_of [profile ''db1'' None] [])) = Returns True ui' \<and> mode ui' = ModeList
         \<and> configs (ssh_manager ui')
             = filter (\<lambda>c. name c \<noteq> input_values (form_of ModeEdit (Some (profile ''db1'' None)) (buffer ''db2'' ''h'' ''2222'' ''u'') (manager_of [profile ''db1'' None] [])) FName)
                 (filter (\<lambda>c. name c \<noteq> name (profile ''db1'' None)) (configs (ssh_manager (form_of ModeEdit (Some (profile ''db1'' None)) (buffer ''db2'' ''h'' ''2222'' ''u'') (manager_of [profile ''db1'' None] [])))))
               @ [config_of_input (input_values (form_of ModeEdit (Some (profile ''db1'' None)) (buffer ''db2'' ''h'' ''2222'' ''u'') (manager_of [profile ''db1'' None] []))) 2222])"
proof -
  have h1: "py_int (input_values (form_of ModeAdd None (buffer ''db1'' ''h'' ''abc'' ''u'') (manager_of [profile ''db1'' None] [])) FPort) = None"
    by (simp add: form_of_def SSHManagerUI_init_def buffer_def py_int_abc)
  have h2: "py_int (input_values (form_of ModeAdd None (buffer ''db1'' ''h'' ''2222'' ''u'') (manager_of [profile ''db1'' None] [])) FPort) = Some 2222 \<and> mode (form_of ModeAdd None (buffer ''db1'' ''h'' ''2222'' ''u'') (manager_of [profile ''db1'' None] [])) = ModeAdd
        \<and> writes_ok 2 (fsys (ssh_manager (form_of ModeAdd None (buffer ''db1'' ''h'' ''2222'' ''u'') (manager_of [profile ''db1'' None] []))))"
    by (simp add: form_of_def SSHManagerUI_init_def buffer_def py_int_2222 manager_of_def
          writes_ok_def)
  have h3: "py_int (input_values (form_of ModeEdit (Some (profile ''db1'' None)) (buffer ''db2'' ''h'' ''2222'' ''u'') (manager_of [profile ''db1'' None] [])) FPort) = Some 2222 \<and> mode (form_of ModeEdit (Some (profile ''db1'' None)) (buffer ''db2'' ''h'' ''2222'' ''u'') (manager_of [profile ''db1'' None] [])) = ModeEdit
        \<and> editing_config (form_of ModeEdit (Some (profile ''db1'' None)) (buffer ''db2'' ''h'' ''2222'' ''u'') (manager_of [profile ''db1'' None] [])) = Some (profile ''db1'' None)
        \<and> writes_ok 3 (fsys (ssh_manager (form_of ModeEdit (Some (profile ''db1'' None)) (buffer ''db2'' ''h'' ''2222'' ''u'') (manager_of [profile ''db1'' None] []))))"
    by (simp add: form_of_def SSHManagerUI_init_def buffer_def py_int_2222 manager_of_def
          writes_ok_def)
  note t = submit_checks_port_only [of _ _ 2222 "profile ''db1'' None"]
  note c1 = t [THEN conjunct1, THEN mp, OF h1, of "example_lib JNull"]
  note c2 = t [THEN conjunct2, THEN conjunct1, THEN mp, OF h2, of "example_lib JNull"]
  note c3 = t [THEN conjunct2, THEN conjunct2, THEN conjunct1, THEN mp, OF h3, of "example_lib JNull"]
  show ?thesis by (intro conjI h1 h2 h3 c1 c2 c3)
qed

text \<open>
  C3, as the claim states it, fails: from an empty registry the keys \<open>a\<close>, Down, Down,
  \<open>0\<close>, Enter submit a form with port 0 and empty name, host and user name; the
  profile is stored and the mode is the list.
\<close>

theorem submit_accepts_invalid_fields:
  "mode (state_of (run (example_lib JNull) [97, 258, 258, 48, 10]
          (SSHManagerUI_init (manager_of [] [])))) = ModeList
   \<and> configs (ssh_manager (state_of (run (example_lib JNull) [97, 258, 258, 48, 10]
          (SSHManagerUI_init (manager_of [] [])))))
       = [\<lparr>name = [], host = [], port = 0, username = [], password = None, key_path = None,
           group = None\<rparr>]"
  by code_simp

section \<open>Saving and loading\<close>

lemma asdict_accepted: "\<not> SSHConfig_raises (asdict c)"
  by (simp add: asdict_def field_names_def required_names_def)

lemma typed_of_asdict: "typed_of (asdict c) = Some c"
  by (cases "password c"; cases "key_path c"; cases "group c")
     (simp_all add: asdict_def SSHConfig_typed_def)

lemma build_configs_asdict: "build_configs (map asdict cs) = Inr cs"
proof -
  have "\<not> list_ex SSHConfig_raises (map asdict cs)"
    by (simp add: list_ex_iff asdict_accepted)
  moreover have "list_all (\<lambda>v. typed_of v \<noteq> None) (map asdict cs)"
    by (simp add: list_all_iff typed_of_asdict)
  moreover have "map (\<lambda>v. the (typed_of v)) (map asdict cs) = cs"
    by (induction cs) (simp_all add: typed_of_asdict)
  ultimately show ?thesis by (simp add: build_configs_def)
qed

lemma load_saved:
  assumes "config_file f = Content (saved_bytes L s)" and "codec_ok L (key s) (configs s)"
  shows "load_config L (key s) f = Inr (configs s)"
  using assms
  by (simp add: load_config_def exists_file_def read_config_data_def read_bytes_def
        saved_bytes_def codec_ok_def build_configs_asdict)

lemma example_codec_ok: "codec_ok (example_lib (JArr (map asdict cs))) k cs"
  by (simp add: codec_ok_def example_lib_def)

text \<open>
  C4. Loading right after a successful save gives back the saved profile list, field for
  field and in the same order, provided the libraries restore the saved document; and the
  save does succeed when the write does.
\<close>

theorem save_load_roundtrip:
  assumes "codec_ok L (key s) (configs s)"
  shows "(returned (save_config L s) \<longrightarrow>
            configs (state_of (save_config L s)) = configs s
          \<and> load_config L (key (state_of (save_config L s))) (fsys (state_of (save_config L s)))
              = Inr (configs s))
       \<and> (writes_ok 1 (fsys s) \<longrightarrow> returned (save_config L s))"
proof (intro conjI impI)
  assume "returned (save_config L s)"
  then obtain u s' where r: "save_config L s = Returns u s'"
    by (cases "save_config L s") simp_all
  from save_config_returns[OF r] have c: "configs s' = configs s" and k: "key s' = key s"
    and f: "config_file (fsys s') = Content (saved_bytes L s)" by simp_all
  from load_saved[OF f assms] k r
  show "load_config L (key (state_of (save_config L s))) (fsys (state_of (save_config L s)))
          = Inr (configs s)" by simp
  from c r show "configs (state_of (save_config L s)) = configs s" by simp
next
  assume "writes_ok 1 (fsys s)"
  then have "writes_ok (Suc 0) (fsys s)" by simp
  from save_config_ok[OF this, of L] show "returned (save_config L s)" by auto
qed

theorem save_load_roundtrip_witness:
  "codec_ok (example_lib example_doc)
            (key (manager_of [profile ''db1'' (Some ''infra/db''), profile ''web'' None] []))
            (configs (manager_of [profile ''db1'' (Some ''infra/db''), profile ''web'' None] []))
   \<and> writes_ok 1 (fsys (manager_of [profile ''db1'' (Some ''infra/db''), profile ''web'' None] []))
   \<and> returned (save_config (example_lib example_doc)
                 (manager_of [profile ''db1'' (Some ''infra/db''), profile ''web'' None] []))
   \<and> load_config (example_lib example_doc)
        (key (state_of (save_config (example_lib example_doc)
                 (manager_of [profile ''db1'' (Some ''infra/db''), profile ''web'' None] []))))
        (fsys (state_of (save_config (example_lib example_doc)
                 (manager_of [profile ''db1'' (Some ''infra/db''), profile ''web'' None] []))))
      = Inr (configs (manager_of [profile ''db1'' (Some ''infra/db''), profile ''web'' None] []))"
proof -
  have h: "codec_ok (example_lib example_doc)
            (key (manager_of [profile ''db1'' (Some ''infra/db''), profile ''web'' None] []))
            (configs (manager_of [profile ''db1'' (Some ''infra/db''), profile ''web'' None] []))"
    using example_codec_ok [of "[profile ''db1'' (Some ''infra/db''), profile ''web'' None]" "''key''"]
    by (simp add: example_doc_def manager_of_def)
  have w: "writes_ok 1 (fsys (manager_of [profile ''db1'' (Some ''infra/db''), profile ''web'' None] []))"
    by (simp add: writes_ok_def manager_of_def)
  note t = save_load_roundtrip [OF h]
  note r = t [THEN conjunct2, THEN mp, OF w]
  note c = t [THEN conjunct1, THEN mp, OF r, THEN conjunct2]
  show ?thesis by (intro conjI h w r c)
qed

section \<open>Failing writes\<close>

lemma save_config_fault:
  assumes "faults (fsys s) = x # r" and "x \<noteq> NoFault"
  shows "\<exists>f'. save_config L s = Raises OSError (s\<lparr>fsys := f'\<rparr>) \<and> faults f' = r"
  using assms by (cases x) (auto simp: save_config_def write_bytes_def Let_def)

lemma save_config_nofault:
  assumes "faults (fsys s) = NoFault # r"
  shows "\<exists>f'. save_config L s = Returns () (s\<lparr>fsys := f'\<rparr>) \<and> faults f' = r
            \<and> config_file f' = Content (saved_bytes L s)"
  using assms by (auto simp: save_config_def write_bytes_def Let_def saved_bytes_def)

text \<open>
  C2, as the code has it. When the writes succeed, \<open>remove_config\<close> and \<open>add_config\<close>
  return and the file decrypts to the profile list in memory. When a write fails, the
  \<open>OSError\<close> leaves the operation and the list in memory keeps the change made before
  that write: the filtered list in \<open>remove_config\<close> and in the first save of
  \<open>add_config\<close>, the list with the new profile in its second save.
\<close>

theorem mutation_without_rollback:
  "(writes_ok 1 (fsys s) \<and> codec_ok L (key s) (filter (\<lambda>c. name c \<noteq> nm) (configs s)) \<longrightarrow>
      returned (remove_config L nm s)
      \<and> configs (state_of (remove_config L nm s)) = filter (\<lambda>c. name c \<noteq> nm) (configs s)
      \<and> load_config L (key (state_of (remove_config L nm s))) (fsys (state_of (remove_config L nm s)))
          = Inr (configs (state_of (remove_config L nm s))))
   \<and> (writes_ok 2 (fsys s)
        \<and> codec_ok L (key s) (filter (\<lambda>c. name c \<noteq> name p) (configs s) @ [p]) \<longrightarrow>
      returned (add_config L p s)
      \<and> configs (state_of (add_config L p s)) = filter (\<lambda>c. name c \<noteq> name p) (configs s) @ [p]
      \<and> load_config L (key (state_of (add_config L p s))) (fsys (state_of (add_config L p s)))
          = Inr (configs (state_of (add_config L p s))))
   \<and> (faults (fsys s) = x # r \<and> x \<noteq> NoFault \<longrightarrow>
      raised (remove_config L nm s) = Some OSError
      \<and> configs (state_of (remove_config L nm s)) = filter (\<lambda>c. name c \<noteq> nm) (configs s)
      \<and> raised (add_config L p s) = Some OSError
      \<and> configs (state_of (add_config L p s)) = filter (\<lambda>c. name c \<noteq> name p) (configs s))
   \<and> (faults (fsys s) = NoFault # x # r \<and> x \<noteq> NoFault \<longrightarrow>
      raised (add_config L p s) = Some OSError
      \<and> configs (state_of (add_config L p s)) = filter (\<lambda>c. name c \<noteq> name p) (configs s) @ [p])"
proof (intro conjI impI)
  assume a: "writes_ok 1 (fsys s) \<and> codec_ok L (key s) (filter (\<lambda>c. name c \<noteq> nm) (configs s))"
  let ?s1 = "s\<lparr>configs := filter (\<lambda>c. name c \<noteq> nm) (configs s)\<rparr>"
  from a have "writes_ok (Suc 0) (fsys ?s1)" by simp
  from save_config_ok[OF this, of L] obtain f' where
    r: "save_config L ?s1 = Returns () (?s1\<lparr>fsys := f'\<rparr>)"
    and f: "config_file f' = Content (saved_bytes L ?s1)" by blast
  from a have "codec_ok L (key ?s1) (configs ?s1)" by simp
  from load_saved[OF f this] have l: "load_config L (key s) f' = Inr (filter (\<lambda>c. name c \<noteq> nm) (configs s))"
    by simp
  from r show "returned (remove_config L nm s)" by (simp add: remove_config_def)
  from r show "configs (state_of (remove_config L nm s)) = filter (\<lambda>c. name c \<noteq> nm) (configs s)"
    by (simp add: remove_config_def)
  from r l show "load_config L (key (state_of (remove_config L nm s))) (fsys (state_of (remove_config L nm s)))
          = Inr (configs (state_of (remove_config L nm s)))"
    by (simp add: remove_config_def)
next
  let ?cs = "filter (\<lambda>c. name c \<noteq> name p) (configs s) @ [p]"
  assume a: "writes_ok 2 (fsys s) \<and> codec_ok L (key s) ?cs"
  let ?s1 = "s\<lparr>configs := filter (\<lambda>c. name c \<noteq> name p) (configs s)\<rparr>"
  from a have "writes_ok (Suc (Suc 0)) (fsys ?s1)" by (simp add: numeral_eq_Suc)
  from save_config_ok[OF this, of L] obtain f1 where
    r1: "save_config L ?s1 = Returns () (?s1\<lparr>fsys := f1\<rparr>)" and w1: "writes_ok (Suc 0) f1" by blast
  let ?s2 = "?s1\<lparr>fsys := f1, configs := ?cs\<rparr>"
  from w1 have "writes_ok (Suc 0) (fsys ?s2)" by simp
  from save_config_ok[OF this, of L] obtain f2 where
    r2: "save_config L ?s2 = Returns () (?s2\<lparr>fsys := f2\<rparr>)"
    and f: "config_file f2 = Content (saved_bytes L ?s2)" by blast
  from a have "codec_ok L (key ?s2) (configs ?s2)" by simp
  from load_saved[OF f this] have l: "load_config L (key s) f2 = Inr ?cs" by simp
  have e: "add_config L p s = Returns () (?s2\<lparr>fsys := f2\<rparr>)"
    using r1 r2 by (simp add: add_config_def remove_config_def)
  from e show "returned (add_config L p s)" by simp
  from e show "configs (state_of (add_config L p s)) = ?cs" by simp
  from e l show "load_config L (key (state_of (add_config L p s))) (fsys (state_of (add_config L p s)))
          = Inr (configs (state_of (add_config L p s)))" by simp
next
  assume a: "faults (fsys s) = x # r \<and> x \<noteq> NoFault"
  let ?s1 = "s\<lparr>configs := filter (\<lambda>c. name c \<noteq> nm) (configs s)\<rparr>"
  from a have "faults (fsys ?s1) = x # r" and "x \<noteq> NoFault" by simp_all
  from save_config_fault[OF this, of L] obtain f' where
    r: "save_config L ?s1 = Raises OSError (?s1\<lparr>fsys := f'\<rparr>)" by blast
  from r show "raised (remove_config L nm s) = Some OSError" by (simp add: remove_config_def)
  from r show "configs (state_of (remove_config L nm s)) = filter (\<lambda>c. name c \<noteq> nm) (configs s)"
    by (simp add: remove_config_def)
  let ?s2 = "s\<lparr>configs := filter (\<lambda>c. name c \<noteq> name p) (configs s)\<rparr>"
  from a have "faults (fsys ?s2) = x # r" and "x \<noteq> NoFault" by simp_all
  from save_config_fault[OF this, of L] obtain f'' where
    r': "save_config L ?s2 = Raises OSError (?s2\<lparr>fsys := f''\<rparr>)" by blast
  from r' show "raised (add_config L p s) = Some OSError"
    by (simp add: add_config_def remove_config_def)
  from r' show "configs (state_of (add_config L p s)) = filter (\<lambda>c. name c \<noteq> name p) (configs s)"
    by (simp add: add_config_def remove_config_def)
next
  let ?cs = "filter (\<lambda>c. name c \<noteq> name p) (configs s) @ [p]"
  assume a: "faults (fsys s) = NoFault # x # r \<and> x \<noteq> NoFault"
  let ?s1 = "s\<lparr>configs := filter (\<lambda>c. name c \<noteq> name p) (configs s)\<rparr>"
  from a have "faults (fsys ?s1) = NoFault # x # r" by simp
  from save_config_nofault[OF this, of L] obtain f1 where
    r1: "save_config L ?s1 = Returns () (?s1\<lparr>fsys := f1\<rparr>)" and w1: "faults f1 = x # r" by blast
  let ?s2 = "?s1\<lparr>fsys := f1, configs := ?cs\<rparr>"
  from w1 a have "faults (fsys ?s2) = x # r" and "x \<noteq> NoFault" by simp_all
  from save_config_fault[OF this, of L] obtain f2 where
    r2: "save_config L ?s2 = Raises OSError (?s2\<lparr>fsys := f2\<rparr>)" by blast
  have e: "add_config L p s = Raises OSError (?s2\<lparr>fsys := f2\<rparr>)"
    using r1 r2 by (simp add: add_config_def remove_config_def)
  from e show "raised (add_config L p s) = Some OSError" by simp
  from e show "configs (state_of (add_config L p s)) = ?cs" by simp
qed

theorem mutation_without_rollback_witness:
  "(writes_ok 1 (fsys (manager_of [profile ''db1'' None, profile ''web'' None] [])) \<and> codec_ok (example_lib (JArr [asdict (profile ''web'' None)])) (key (manager_of [profile ''db1'' None, profile ''web'' None] [])) (filter (\<lambda>c. name c \<noteq> ''db1'') (configs (manager_of [profile ''db1'' None, profile ''web'' None] []))))
   \<and> (returned (remove_config (example_lib (JArr [asdict (profile ''web'' None)])) ''db1'' (manager_of [profile ''db1'' None, profile ''web'' None] []))
      \<and> configs (state_of (remove_config (example_lib (JArr [asdict (profile ''web'' None)])) ''db1'' (manager_of [profile ''db1'' None, profile ''web'' None] []))) = filter (\<lambda>c. name c \<noteq> ''db1'') (configs (manager_of [profile ''db1'' None, profile ''web'' None] []))
      \<and> load_config (example_lib (JArr [asdict (profile ''web'' None)])) (key (state_of (remove_config (example_lib (JArr [asdict (profile ''web'' None)])) ''db1'' (manager_of [profile ''db1'' None, profile ''web'' None] [])))) (fsys (state_of (remove_config (example_lib (JArr [asdict (profile ''web'' None)])) ''db1'' (manager_of [profile ''db1'' None, profile ''web'' None] []))))
          = Inr (configs (state_of (remove_config (example_lib (JArr [asdict (profile ''web'' None)])) ''db1'' (manager_of [profile ''db1'' None, profile ''web'' None] [])))))
   \<and> (writes_ok 2 (fsys (manager_of [profile ''db1'' None] []))
        \<and> codec_ok (example_lib (JArr [asdict (profile ''db1'' None), asdict (profile ''web'' None)])) (key (manager_of [profile ''db1'' None] [])) (filter (\<lambda>c. name c \<noteq> name (profile ''web'' None)) (configs (manager_of [profile ''db1'' None] [])) @ [profile ''web'' None]))
   \<and> (returned (add_config (example_lib (JArr [asdict (profile ''db1'' None), asdict (profile ''web'' None)])) (profile ''web'' None) (manager_of [profile ''db1'' None] []))
      \<and> configs (state_of (add_config (example_lib (JArr [asdict (profile ''db1'' None), asdict (profile ''web'' None)])) (profile ''web'' None) (manager_of [profile ''db1'' None] []))) = filter (\<lambda>c. name c \<noteq> name (profile ''web'' None)) (configs (manager_of [profile ''db1'' None] [])) @ [profile ''web'' None]
      \<and> load_config (example_lib (JArr [asdict (profile ''db1'' None), asdict (profile ''web'' None)])) (key (state_of (add_config (example_lib (JArr [asdict (profile ''db1'' None), asdict (profile ''web'' None)])) (profile ''web'' None) (manager_of [profile ''db1'' None] [])))) (fsys (state_of (add_config (example_lib (JArr [asdict (profile ''db1'' None), asdict (profile ''web'' None)])) (profile ''web'' None) (manager_of [profile ''db1'' None] []))))
          = Inr (configs (state_of (add_config (example_lib (JArr [asdict (profile ''db1'' None), asdict (profile ''web'' None)])) (profile ''web'' None) (manager_of [profile ''db1'' None] [])))))
   \<and> (faults (fsys (manager_of [profile ''db1'' None] [OpenFails])) = OpenFails # [] \<and> OpenFails \<noteq> NoFault)
   \<and> (raised (remove_config (example_lib JNull) ''db1'' (manager_of [profile ''db1'' None] [OpenFails])) = Some OSError
      \<and> configs (state_of (remove_config (example_lib JNull) ''db1'' (manager_of [profile ''db1'' None] [OpenFails]))) = filter (\<lambda>c. name c \<noteq> ''db1'') (configs (manager_of [profile ''db1'' None] [OpenFails]))
      \<and> raised (add_config (example_lib JNull) (profile ''web'' None) (manager_of [profile ''db1'' None] [OpenFails])) = Some OSError
      \<and> configs (state_of (add_config (example_lib JNull) (profile ''web'' None) (manager_of [profile ''db1'' None] [OpenFails]))) = filter (\<lambda>c. name c \<noteq> name (profile ''web'' None)) (configs (manager_of [profile ''db1'' None] [OpenFails])))
   \<and> (faults (fsys (manager_of [profile ''db1'' None] [NoFault, WriteFails])) = NoFault # WriteFails # [] \<and> WriteFails \<noteq> NoFault)
   \<and> (raised (add_config (example_lib JNull) (profile ''web'' None) (manager_of [profile ''db1'' None] [NoFault, WriteFails])) = Some OSError
      \<and> configs (state_of (add_config (example_lib JNull) (profile ''web'' None) (manager_of [profile ''db1'' None] [NoFault, WriteFails]))) = filter (\<lambda>c. name c \<noteq> name (profile ''web'' None)) (configs (manager_of [profile ''db1'' None] [NoFault, WriteFails])) @ [profile ''web'' None])"
proof -
  have h1: "writes_ok 1 (fsys (manager_of [profile ''db1'' None, profile ''web'' None] [])) \<and> codec_ok (example_lib (JArr [asdict (profile ''web'' None)])) (key (manager_of [profile ''db1'' None, profile ''web'' None] [])) (filter (\<lambda>c. name c \<noteq> ''db1'') (configs (manager_of [profile ''db1'' None, profile ''web'' None] [])))"
    using example_codec_ok [of "[profile ''web'' None]" "''key''"]
    by (simp add: writes_ok_def manager_of_def profile_def)
  have h2: "writes_ok 2 (fsys (manager_of [profile ''db1'' None] []))
        \<and> codec_ok (example_lib (JArr [asdict (profile ''db1'' None), asdict (profile ''web'' None)])) (key (manager_of [profile ''db1'' None] [])) (filter (\<lambda>c. name c \<noteq> name (profile ''web'' None)) (configs (manager_of [profile ''db1'' None] [])) @ [profile ''web'' None])"
    using example_codec_ok [of "[profile ''db1'' None, profile ''web'' None]" "''key''"]
    by (simp add: writes_ok_def manager_of_def profile_def)
  have h3: "faults (fsys (manager_of [profile ''db1'' None] [OpenFails])) = OpenFails # [] \<and> OpenFails \<noteq> NoFault"
    by (simp add: manager_of_def)
  have h4: "faults (fsys (manager_of [profile ''db1'' None] [NoFault, WriteFails])) = NoFault # WriteFails # [] \<and> WriteFails \<noteq> NoFault"
    by (simp add: manager_of_def)
  note c1 = mutation_without_rollback [THEN conjunct1, THEN mp, OF h1]
  note c2 = mutation_without_rollback [THEN conjunct2, THEN conjunct1, THEN mp, OF h2]
  note c3 = mutation_without_rollback [THEN conjunct2, THEN conjunct2, THEN conjunct1, THEN mp, OF h3,
              of "example_lib JNull" "''db1''" "profile ''web'' None"]
  note c4 = mutation_without_rollback [THEN conjunct2, THEN conjunct2, THEN conjunct2, THEN mp, OF h4,
              of "example_lib JNull" "profile ''web'' None"]
  show ?thesis by (intro conjI h1 h2 h3 h4 c1 c2 c3 c4)
qed

text \<open>
  C2, as the claim states it, fails. The file holds the profile \<open>db1\<close>; the write of
  \<open>remove_config\<close> fails on opening: the list in memory is empty afterwards while the
  file still decrypts to \<open>db1\<close>. When the write fails after opening, the file is left
  empty.
\<close>

theorem failed_save_diverges:
  "raised (remove_config (example_lib (JArr [asdict (profile ''db1'' None)])) ''db1''
      (state_of (save_config (example_lib (JArr [asdict (profile ''db1'' None)]))
         (manager_of [profile ''db1'' None] [NoFault, OpenFails])))) = Some OSError
   \<and> configs (state_of (remove_config (example_lib (JArr [asdict (profile ''db1'' None)])) ''db1''
      (state_of (save_config (example_lib (JArr [asdict (profile ''db1'' None)]))
         (manager_of [profile ''db1'' None] [NoFault, OpenFails]))))) = []
   \<and> load_config (example_lib (JArr [asdict (profile ''db1'' None)])) ''key''
       (fsys (state_of (remove_config (example_lib (JArr [asdict (profile ''db1'' None)])) ''db1''
         (state_of (save_config (example_lib (JArr [asdict (profile ''db1'' None)]))
            (manager_of [profile ''db1'' None] [NoFault, OpenFails]))))))
       = Inr [profile ''db1'' None]
   \<and> config_file (fsys (state_of (remove_config (example_lib (JArr [asdict (profile ''db1'' None)])) ''db1''
         (state_of (save_config (example_lib (JArr [asdict (profile ''db1'' None)]))
            (manager_of [profile ''db1'' None] [NoFault, WriteFails]))))))
       = Content []"
  by code_simp

section \<open>The \<open>--show-config\<close> flag\<close>










end
